theory Spec2Isabelle
  imports Complex_Main
begin

section \<open>Darjeeling live hazard map: scoring and data gathering\<close>

text \<open>
  A shallow embedding of \<^verbatim>\<open>hazard-map-darj.py\<close>. Python numbers are modelled as exact
  rationals (\<^typ>\<open>rat\<close>): \<^verbatim>\<open>float\<close> arithmetic is read as exact arithmetic, so
  the literal \<^verbatim>\<open>0.8\<close> is \<open>8/10\<close> and \<^verbatim>\<open>35.4\<close> is \<open>354/10\<close>;
  non-finite values (\<^verbatim>\<open>nan\<close>, \<^verbatim>\<open>inf\<close>) are outside the model. Python's
  \<^verbatim>\<open>None\<close> is \<open>None\<close> of an option type (or \<open>JNull\<close> inside a JSON document),
  an exception is the \<open>Inl\<close> of a sum type.
\<close>

subsection \<open>Exceptions\<close>

text \<open>
  The exceptions of the built-in operations used, and \<open>RequestException\<close> for whatever a
  request raises (connection failure, timeout, \<^verbatim>\<open>raise_for_status\<close>). \<open>py_bind\<close>
  sequences two steps of a block: an exception raised by the first step skips the second.
\<close>

datatype py_error =
  KeyError | IndexError | TypeError | ValueError | AttributeError | RequestException

definition py_bind :: "py_error + 'a \<Rightarrow> ('a \<Rightarrow> py_error + 'b) \<Rightarrow> py_error + 'b" where
  "py_bind m f = (case m of Inl e \<Rightarrow> Inl e | Inr v \<Rightarrow> f v)"

subsection \<open>Hazard scoring\<close>

text \<open>
  \<^verbatim>\<open>round(score, 1)\<close>: rounding to one decimal place, ties to the even neighbour.
\<close>

definition py_round1 :: "rat \<Rightarrow> rat" where
  "py_round1 x =
     (let t = x * 10; f = \<lfloor>t\<rfloor>; d = t - of_int f
      in (if d < 1 / 2 then of_int f
          else if 1 / 2 < d then of_int (f + 1)
          else if even f then of_int f else of_int (f + 1)) / 10)"

text \<open>Lines 161--164: the label chosen for the clamped score.\<close>

definition label_of_score :: "rat \<Rightarrow> string" where
  "label_of_score score =
     (if score \<ge> 85 then ''confirm 99%''
      else if score \<ge> 60 then ''high''
      else if score \<ge> 35 then ''mid''
      else ''no'')"

text \<open>
  \<^verbatim>\<open>compute_landslide_score(hum, pres_drop_3h, elev_m=2000)\<close>. The test
  \<^verbatim>\<open>if hum:\<close> is false for \<^verbatim>\<open>None\<close> and for \<^verbatim>\<open>0\<close>; the comparison
  \<^verbatim>\<open>pres_drop_3h > 0\<close> raises \<^verbatim>\<open>TypeError\<close> when \<^verbatim>\<open>pres_drop_3h\<close> is
  \<^verbatim>\<open>None\<close>.
\<close>

definition default_elev_m :: rat where
  "default_elev_m = 2000"

definition compute_landslide_score ::
    "rat option \<Rightarrow> rat option \<Rightarrow> rat \<Rightarrow> py_error + (rat \<times> string)" where
  "compute_landslide_score hum pres_drop_3h elev_m =
     (let score = 0;
          score = (case hum of
                     None \<Rightarrow> score
                   | Some h \<Rightarrow> if h \<noteq> 0 then score + max 0 (h - 60) * (8 / 10) else score)
      in case pres_drop_3h of
           None \<Rightarrow> Inl TypeError
         | Some p \<Rightarrow>
             (let score = (if p > 0 then score + min 30 (p * 8) else score);
                  score = score + min 15 ((elev_m - 500) / 100);
                  score = max 0 (min 100 score)
              in Inr (py_round1 score, label_of_score score)))"

text \<open>
  The value of \<^verbatim>\<open>score\<close> after line 158, for a numeric pressure drop: the three
  contributions, clamped to \<open>[0, 100]\<close>.
\<close>

definition clamped_score :: "rat option \<Rightarrow> rat \<Rightarrow> rat \<Rightarrow> rat" where
  "clamped_score hum p elev_m =
     max 0 (min 100
       ((case hum of None \<Rightarrow> 0 | Some h \<Rightarrow> max 0 (h - 60) * (8 / 10))
        + (if p > 0 then min 30 (p * 8) else 0)
        + min 15 ((elev_m - 500) / 100)))"

definition rainfall_scale :: "rat \<Rightarrow> string" where
  "rainfall_scale mm =
     (if mm < 2 / 10 then ''No''
      else if mm < 5 then ''Mid''
      else if mm < 20 then ''High''
      else ''Confirm 99%'')"

definition pm25_to_category :: "rat option \<Rightarrow> string" where
  "pm25_to_category pm25 =
     (case pm25 of
        None \<Rightarrow> ''N/A''
      | Some v \<Rightarrow>
          if v \<le> 12 then ''Good''
          else if v \<le> 354 / 10 then ''Moderate''
          else if v \<le> 554 / 10 then ''Unhealthy for Sensitive Groups''
          else if v \<le> 1504 / 10 then ''Unhealthy''
          else if v \<le> 2504 / 10 then ''Very Unhealthy''
          else ''Hazardous'')"

subsection \<open>JSON documents and the Python operations applied to them\<close>

text \<open>
  What \<^verbatim>\<open>r.json()\<close> returns. An object is the dict Python builds, as the list of
  its items, one per key; \<^verbatim>\<open>null\<close> is Python's \<^verbatim>\<open>None\<close>. Each operation below
  returns what Python returns or the exception it raises.
\<close>

datatype json =
  JNull | JBool bool | JNum rat | JStr string | JArr "json list" | JObj "(string \<times> json) list"

text \<open>Truth value of an object in a condition.\<close>

fun truthy :: "json \<Rightarrow> bool" where
  "truthy JNull = False"
| "truthy (JBool b) = b"
| "truthy (JNum n) = (n \<noteq> 0)"
| "truthy (JStr s) = (s \<noteq> [])"
| "truthy (JArr xs) = (xs \<noteq> [])"
| "truthy (JObj kvs) = (kvs \<noteq> [])"

text \<open>\<^verbatim>\<open>x[k]\<close> for a string key \<open>k\<close>.\<close>

fun getitem_key :: "json \<Rightarrow> string \<Rightarrow> py_error + json" where
  "getitem_key (JObj kvs) k = (case map_of kvs k of None \<Rightarrow> Inl KeyError | Some v \<Rightarrow> Inr v)"
| "getitem_key _ k = Inl TypeError"

text \<open>
  \<^verbatim>\<open>xs[i]\<close> on a sequence: a negative index counts from the end, an index out of
  range raises \<^verbatim>\<open>IndexError\<close>.
\<close>

definition seq_index :: "'a list \<Rightarrow> int \<Rightarrow> py_error + 'a" where
  "seq_index xs i =
     (let n = int (length xs); j = (if i < 0 then i + n else i)
      in if 0 \<le> j \<and> j < n then Inr (xs ! nat j) else Inl IndexError)"

text \<open>\<^verbatim>\<open>x[i]\<close> for an integer \<open>i\<close>; no key of a parsed JSON object is an integer.\<close>

fun getitem_idx :: "json \<Rightarrow> int \<Rightarrow> py_error + json" where
  "getitem_idx (JArr xs) i = seq_index xs i"
| "getitem_idx (JStr s) i = map_sum id (\<lambda>c. JStr [c]) (seq_index s i)"
| "getitem_idx (JObj kvs) i = Inl KeyError"
| "getitem_idx _ i = Inl TypeError"

text \<open>\<^verbatim>\<open>len(x)\<close>.\<close>

fun py_len :: "json \<Rightarrow> py_error + int" where
  "py_len (JArr xs) = Inr (int (length xs))"
| "py_len (JStr s) = Inr (int (length s))"
| "py_len (JObj kvs) = Inr (int (length kvs))"
| "py_len _ = Inl TypeError"

text \<open>
  \<^verbatim>\<open>float(x)\<close>. The conversion of a string is Python's own parser, a parameter
  \<open>str_float\<close> of the model: \<open>None\<close> where it raises \<^verbatim>\<open>ValueError\<close>.
\<close>

fun py_float :: "(string \<Rightarrow> rat option) \<Rightarrow> json \<Rightarrow> py_error + rat" where
  "py_float str_float (JNum n) = Inr n"
| "py_float str_float (JBool b) = Inr (if b then 1 else 0)"
| "py_float str_float (JStr s) =
     (case str_float s of None \<Rightarrow> Inl ValueError | Some v \<Rightarrow> Inr v)"
| "py_float str_float _ = Inl TypeError"

text \<open>\<^verbatim>\<open>x.get(k)\<close>: only a dict has the method.\<close>

fun py_get :: "json \<Rightarrow> string \<Rightarrow> py_error + json" where
  "py_get (JObj kvs) k = Inr (case map_of kvs k of None \<Rightarrow> JNull | Some v \<Rightarrow> v)"
| "py_get _ k = Inl AttributeError"

primrec first_index :: "'a list \<Rightarrow> 'a \<Rightarrow> nat option" where
  "first_index [] y = None"
| "first_index (x # xs) y =
     (if x = y then Some 0 else map_option Suc (first_index xs y))"

primrec find_sub :: "string \<Rightarrow> string \<Rightarrow> nat option" where
  "find_sub [] sub = (if sub = [] then Some 0 else None)"
| "find_sub (c # cs) sub =
     (if take (length sub) (c # cs) = sub then Some 0 else map_option Suc (find_sub cs sub))"

text \<open>
  \<^verbatim>\<open>x.index(s)\<close> for a string \<open>s\<close>: the first position of an equal element of a
  list, the first position of the substring in a string, \<^verbatim>\<open>ValueError\<close> when there
  is none.
\<close>

fun py_index :: "json \<Rightarrow> string \<Rightarrow> py_error + int" where
  "py_index (JArr xs) s =
     (case first_index xs (JStr s) of None \<Rightarrow> Inl ValueError | Some i \<Rightarrow> Inr (int i))"
| "py_index (JStr t) s =
     (case find_sub t s of None \<Rightarrow> Inl ValueError | Some i \<Rightarrow> Inr (int i))"
| "py_index _ s = Inl AttributeError"

text \<open>\<^verbatim>\<open>s.lower()\<close>, on the ASCII letters.\<close>

definition lower_char :: "char \<Rightarrow> char" where
  "lower_char c =
     (let n = (of_char c :: nat) in if 65 \<le> n \<and> n \<le> 90 then char_of (n + 32) else c)"

definition lower :: "string \<Rightarrow> string" where
  "lower s = map lower_char s"

text \<open>\<^verbatim>\<open>sub in s\<close>.\<close>

definition contains :: "string \<Rightarrow> string \<Rightarrow> bool" where
  "contains s sub = (find_sub s sub \<noteq> None)"

subsection \<open>Configuration\<close>

type_synonym bubble = "string \<times> rat \<times> rat"

definition BUBBLES :: "bubble list" where
  "BUBBLES =
     [(''Chowrasta / Mall'', 270359 / 10000, 882626 / 10000),
      (''Ghoom'', 270470 / 10000, 882632 / 10000),
      (''Lebong'', 270161 / 10000, 882536 / 10000),
      (''Sonada'', 269607 / 10000, 882960 / 10000),
      (''Jorebungalow'', 270260 / 10000, 882714 / 10000),
      (''Teesta Bazaar'', 271919 / 10000, 885168 / 10000),
      (''Tiger Hill'', 270195 / 10000, 882430 / 10000),
      (''Kurseong'', 268820 / 10000, 882774 / 10000),
      (''Happy Valley'', 270448 / 10000, 882792 / 10000),
      (''North Point'', 270613 / 10000, 882715 / 10000),
      (''Darjeeling Zoo'', 270423 / 10000, 882767 / 10000),
      (''Cart Road Area'', 270300 / 10000, 882800 / 10000),
      (''Glenary's / Observatory'', 270350 / 10000, 882640 / 10000),
      (''Batasia Loop'', 270465 / 10000, 882588 / 10000)]"

definition TEESTA_THINGSPEAK :: string where
  "TEESTA_THINGSPEAK = ''https://api.thingspeak.com/channels/1231845/feeds.json?results=1''"

definition CWC_FFS :: string where
  "CWC_FFS = ''https://ffs.india-water.gov.in/''"

subsection \<open>Data gathering\<close>

text \<open>
  The network and the clock are inputs of the model. For one pass of the loop of
  \<^verbatim>\<open>gather_bubble_data\<close>, a \<open>point_io\<close> holds what the calls made during that pass
  return: \<open>weather\<close> is the outcome of \<^verbatim>\<open>fetch_open_meteo_weather(lat, lon)\<close>,
  \<open>now_key\<close> the formatted current hour, \<open>air\<close> the outcome of
  \<^verbatim>\<open>fetch_open_meteo_aq(lat, lon)\<close>.
\<close>

record point_io =
  weather :: "py_error + json"
  now_key :: string
  air :: "py_error + json"

text \<open>
  One dict of \<^verbatim>\<open>results\<close>. The key \<^verbatim>\<open>"error"\<close> is present only in a placeholder
  entry; there it holds the description of the caught exception.
\<close>

record entry =
  name :: string
  lat :: rat
  lon :: rat
  temp :: "rat option"
  humid :: "rat option"
  pressure :: "rat option"
  precip_now :: rat
  precip_next1 :: rat
  pressure_drop_3h :: rat
  landslide_score :: rat
  landslide_label :: string
  pm25 :: "rat option"
  pm10 :: "rat option"
  aqi_category :: string
  error :: "py_error option"

text \<open>\<^verbatim>\<open>float(hourly[key][i])\<close>.\<close>

definition hourly_float ::
    "(string \<Rightarrow> rat option) \<Rightarrow> json \<Rightarrow> string \<Rightarrow> int \<Rightarrow> py_error + rat" where
  "hourly_float str_float hourly key i =
     py_bind (getitem_key hourly key) (\<lambda>series.
     py_bind (getitem_idx series i) (py_float str_float))"

text \<open>Lines 189--192: the index of the current hour, 0 when anything raises.\<close>

definition current_index :: "json \<Rightarrow> string \<Rightarrow> int" where
  "current_index hourly key =
     (case py_bind (getitem_key hourly ''time'') (\<lambda>t. py_index t key) of
        Inl e \<Rightarrow> 0
      | Inr i \<Rightarrow> i)"

text \<open>Line 201: \<^verbatim>\<open>(pres_prev - pres) if pres_prev else 0\<close>.\<close>

definition pressure_drop :: "rat option \<Rightarrow> rat \<Rightarrow> rat" where
  "pressure_drop pres_prev pres =
     (case pres_prev of
        None \<Rightarrow> 0
      | Some pp \<Rightarrow> if pp \<noteq> 0 then pp - pres else 0)"

text \<open>Lines 204--211: the air-quality block, both values \<^verbatim>\<open>None\<close> when anything raises.\<close>

definition read_air :: "(string \<Rightarrow> rat option) \<Rightarrow> point_io \<Rightarrow> rat option \<times> rat option" where
  "read_air str_float io =
     (case py_bind (air io) (\<lambda>aq.
           py_bind (getitem_key aq ''hourly'') (\<lambda>ah.
           py_bind (py_bind (getitem_key ah ''time'') (\<lambda>t. py_index t (now_key io))) (\<lambda>aidx.
           py_bind (hourly_float str_float ah ''pm2_5'' aidx) (\<lambda>v25.
           py_bind (hourly_float str_float ah ''pm10'' aidx) (\<lambda>v10.
           Inr (v25, v10)))))) of
        Inl e \<Rightarrow> (None, None)
      | Inr (v25, v10) \<Rightarrow> (Some v25, Some v10))"

text \<open>Lines 182--224: the body of the outer \<^verbatim>\<open>try\<close>, for one point.\<close>

definition point_body ::
    "(string \<Rightarrow> rat option) \<Rightarrow> point_io \<Rightarrow> bubble \<Rightarrow> py_error + entry" where
  "point_body str_float io b =
     (case b of (nm, la, lo) \<Rightarrow>
      py_bind (weather io) (\<lambda>w.
      py_bind (getitem_key w ''hourly'') (\<lambda>hourly.
      let idx = current_index hourly (now_key io) in
      py_bind (hourly_float str_float hourly ''precipitation'' idx) (\<lambda>p_now.
      py_bind (py_bind (getitem_key hourly ''precipitation'') py_len) (\<lambda>n.
      py_bind (if idx + 1 < n then hourly_float str_float hourly ''precipitation'' (idx + 1)
               else Inr 0) (\<lambda>p_next1.
      py_bind (hourly_float str_float hourly ''relativehumidity_2m'' idx) (\<lambda>hum.
      py_bind (hourly_float str_float hourly ''pressure_msl'' idx) (\<lambda>pres.
      py_bind (hourly_float str_float hourly ''temperature_2m'' idx) (\<lambda>tmp.
      py_bind (if idx \<ge> 3
               then map_sum id Some (hourly_float str_float hourly ''pressure_msl'' (idx - 3))
               else Inr None) (\<lambda>pres_prev.
      let pres_drop = pressure_drop pres_prev pres;
          (v25, v10) = read_air str_float io
      in py_bind (compute_landslide_score (Some hum) (Some pres_drop) default_elev_m)
           (\<lambda>(score, label).
      Inr \<lparr>name = nm, lat = la, lon = lo,
           temp = Some tmp, humid = Some hum, pressure = Some pres,
           precip_now = p_now, precip_next1 = p_next1,
           pressure_drop_3h = pres_drop,
           landslide_score = score, landslide_label = label,
           pm25 = v25, pm10 = v10,
           aqi_category = pm25_to_category v25,
           error = None\<rparr>)))))))))))"

text \<open>Lines 226--237: the placeholder entry of the \<^verbatim>\<open>except\<close> branch.\<close>

definition placeholder :: "bubble \<Rightarrow> py_error \<Rightarrow> entry" where
  "placeholder b e =
     (case b of (nm, la, lo) \<Rightarrow>
      \<lparr>name = nm, lat = la, lon = lo,
       temp = None, humid = None, pressure = None,
       precip_now = 0, precip_next1 = 0,
       pressure_drop_3h = 0,
       landslide_score = 0, landslide_label = ''no'',
       pm25 = None, pm10 = None,
       aqi_category = ''N/A'',
       error = Some e\<rparr>)"

text \<open>Lines 181--237: the \<^verbatim>\<open>try\<close> statement, giving the entry appended for one point.\<close>

definition entry_for :: "(string \<Rightarrow> rat option) \<Rightarrow> point_io \<Rightarrow> bubble \<Rightarrow> entry" where
  "entry_for str_float io b =
     (case point_body str_float io b of
        Inl e \<Rightarrow> placeholder b e
      | Inr r \<Rightarrow> r)"

text \<open>
  The loop over the registry: pass \<open>i\<close> appends one entry to \<^verbatim>\<open>results\<close>, with
  the inputs \<open>io i\<close>.
\<close>

fun gather_loop ::
    "(string \<Rightarrow> rat option) \<Rightarrow> (nat \<Rightarrow> point_io) \<Rightarrow> nat \<Rightarrow> bubble list \<Rightarrow> entry list
       \<Rightarrow> entry list" where
  "gather_loop str_float io i [] results = results"
| "gather_loop str_float io i (b # bs) results =
     gather_loop str_float io (Suc i) bs (results @ [entry_for str_float (io i) b])"

definition gather_bubble_data ::
    "(string \<Rightarrow> rat option) \<Rightarrow> (nat \<Rightarrow> point_io) \<Rightarrow> bubble list \<Rightarrow> entry list" where
  "gather_bubble_data str_float io registry = gather_loop str_float io 0 registry []"

subsection \<open>River level\<close>

text \<open>
  What \<^verbatim>\<open>requests.get(url)\<close> returns: the status code, the outcome of
  \<^verbatim>\<open>r.json()\<close> and the text of the body. The function \<open>get\<close> below gives, for each
  URL, the response or the exception raised.
\<close>

record response =
  status_code :: int
  json_body :: "py_error + json"
  text_body :: string

type_synonym reading = "rat option \<times> string option \<times> string"

text \<open>Lines 126--130: the value read from the feed, \<open>None\<close> when no branch returns.\<close>

definition feed_value ::
    "(string \<Rightarrow> rat option) \<Rightarrow> (string \<Rightarrow> py_error + response) \<Rightarrow> py_error + rat option" where
  "feed_value str_float get =
     py_bind (get TEESTA_THINGSPEAK) (\<lambda>r.
     if status_code r = 200 then
       py_bind (json_body r) (\<lambda>j.
       py_bind (py_get j ''feeds'') (\<lambda>feeds.
       py_bind (if truthy feeds
                then py_bind (getitem_key j ''feeds'') (\<lambda>fs.
                     py_bind (getitem_idx fs 0) (\<lambda>rec.
                     py_bind (py_get rec ''field1'') (\<lambda>f1. Inr (truthy f1))))
                else Inr False) (\<lambda>present.
       if present then
         py_bind (getitem_key j ''feeds'') (\<lambda>fs.
         py_bind (getitem_idx fs 0) (\<lambda>rec.
         py_bind (getitem_key rec ''field1'') (\<lambda>f1.
         py_bind (py_float str_float f1) (\<lambda>val. Inr (Some val)))))
       else Inr None)))
     else Inr None)"

text \<open>Lines 132--135.\<close>

definition depth_status :: "rat \<Rightarrow> string" where
  "depth_status val =
     (if val > 400 then ''FLOOD WARNING''
      else if val > 300 then ''HIGH''
      else if val < 100 then ''LOW''
      else ''NORMAL'')"

text \<open>
  \<^verbatim>\<open>fetch_teesta_level()\<close>: the reading, and the list of the URLs requested, in order.
\<close>

definition fetch_teesta_level ::
    "(string \<Rightarrow> rat option) \<Rightarrow> (string \<Rightarrow> py_error + response) \<Rightarrow> reading \<times> string list" where
  "fetch_teesta_level str_float get =
     (case feed_value str_float get of
        Inr (Some val) \<Rightarrow>
          ((Some val, Some ''cm (ThingSpeak)'', depth_status val), [TEESTA_THINGSPEAK])
      | _ \<Rightarrow>
          (case py_bind (get CWC_FFS) (\<lambda>r. Inr (contains (lower (text_body r)) ''teesta'')) of
             Inr True \<Rightarrow>
               ((None, Some ''CWC FFS mention'', ''SEE_CWC''), [TEESTA_THINGSPEAK, CWC_FFS])
           | _ \<Rightarrow>
               ((None, None, ''NO_PUBLIC_RIVER_DATA''), [TEESTA_THINGSPEAK, CWC_FFS])))"

subsection \<open>Sample inputs\<close>

text \<open>
  Concrete responses in the shape the sources serve, used to run the model: four hourly
  values per series, the current hour being the last one.
\<close>

definition sample_times :: json where
  "sample_times =
     JArr [JStr ''2025-06-01T00:00'', JStr ''2025-06-01T01:00'',
           JStr ''2025-06-01T02:00'', JStr ''2025-06-01T03:00'']"

definition sample_hourly :: json where
  "sample_hourly =
     JObj [(''time'', sample_times),
           (''temperature_2m'', JArr [JNum 12, JNum 12, JNum 11, JNum 11]),
           (''relativehumidity_2m'', JArr [JNum 78, JNum 79, JNum 80, JNum 80]),
           (''precipitation'', JArr [JNum 0, JNum 0, JNum (1 / 2), JNum (3 / 10)]),
           (''pressure_msl'', JArr [JNum 1007, JNum 1006, JNum 1006, JNum 1005])]"

definition sample_io :: point_io where
  "sample_io =
     \<lparr>weather = Inr (JObj [(''hourly'', sample_hourly)]),
      now_key = ''2025-06-01T03:00'',
      air = Inl RequestException\<rparr>"

text \<open>The same response with a pressure of 0.0 three hours before the current hour.\<close>

definition zero_pressure_hourly :: json where
  "zero_pressure_hourly =
     JObj [(''time'', sample_times),
           (''temperature_2m'', JArr [JNum 12, JNum 12, JNum 11, JNum 11]),
           (''relativehumidity_2m'', JArr [JNum 78, JNum 79, JNum 80, JNum 80]),
           (''precipitation'', JArr [JNum 0, JNum 0, JNum (1 / 2), JNum (3 / 10)]),
           (''pressure_msl'', JArr [JNum 0, JNum 1006, JNum 1006, JNum 1005])]"

definition zero_pressure_io :: point_io where
  "zero_pressure_io =
     \<lparr>weather = Inr (JObj [(''hourly'', zero_pressure_hourly)]),
      now_key = ''2025-06-01T03:00'',
      air = Inl RequestException\<rparr>"

text \<open>A pass whose weather request fails.\<close>

definition failing_io :: point_io where
  "failing_io =
     \<lparr>weather = Inl RequestException, now_key = ''2025-06-01T03:00'',
      air = Inl RequestException\<rparr>"

definition sample_registry :: "bubble list" where
  "sample_registry = take 3 BUBBLES"

definition sample_world :: "nat \<Rightarrow> point_io" where
  "sample_world i = (if i = 1 then failing_io else sample_io)"

text \<open>
  Three states of the two river sources: the feed serves a depth of 312.5 (as a string, the
  way the feed serves its fields); the feed is unreachable and the advisory page names the
  river; both are unreachable.
\<close>

definition sample_str_float :: "string \<Rightarrow> rat option" where
  "sample_str_float s = (if s = ''312.5'' then Some (625 / 2) else None)"

definition sample_feed :: json where
  "sample_feed =
     JObj [(''channel'', JObj [(''id'', JNum 1231845)]),
           (''feeds'', JArr [JObj [(''created_at'', JStr ''2025-06-01T03:00:00Z''),
                                   (''entry_id'', JNum 7),
                                   (''field1'', JStr ''312.5'')]])]"

definition feed_up :: "string \<Rightarrow> py_error + response" where
  "feed_up url =
     (if url = TEESTA_THINGSPEAK
      then Inr \<lparr>status_code = 200, json_body = Inr sample_feed, text_body = []\<rparr>
      else Inl RequestException)"

definition page_only :: "string \<Rightarrow> py_error + response" where
  "page_only url =
     (if url = CWC_FFS
      then Inr \<lparr>status_code = 200, json_body = Inl ValueError,
                text_body = ''Flood forecast: river TEESTA at Domohani''\<rparr>
      else Inl RequestException)"

definition all_down :: "string \<Rightarrow> py_error + response" where
  "all_down url = Inl RequestException"




section \<open>Properties of the hazard scoring\<close>

subsection \<open>Rounding and the clamped score\<close>

lemma py_round1_cases:
  "py_round1 x = of_int \<lfloor>x * 10\<rfloor> / 10 \<or>
   (py_round1 x = of_int (\<lfloor>x * 10\<rfloor> + 1) / 10 \<and> of_int \<lfloor>x * 10\<rfloor> < x * 10)"
  unfolding py_round1_def Let_def by auto

lemma py_round1_lower: "of_int a \<le> x * 10 \<Longrightarrow> of_int a / 10 \<le> py_round1 x"
proof -
  assume "of_int a \<le> x * 10"
  then have "a \<le> \<lfloor>x * 10\<rfloor>" by (simp add: le_floor_iff)
  then have "(of_int a :: rat) \<le> of_int \<lfloor>x * 10\<rfloor>" "(of_int a :: rat) \<le> of_int (\<lfloor>x * 10\<rfloor> + 1)"
    by simp_all
  with py_round1_cases [of x] show ?thesis
    by (auto simp: divide_le_cancel)
qed

lemma py_round1_upper: "x * 10 \<le> of_int b \<Longrightarrow> py_round1 x \<le> of_int b / 10"
proof -
  assume le: "x * 10 \<le> of_int b"
  have "of_int \<lfloor>x * 10\<rfloor> \<le> x * 10" by simp
  from this le have f: "(of_int \<lfloor>x * 10\<rfloor> :: rat) \<le> of_int b" by (rule order_trans)
  from py_round1_cases [of x] show ?thesis
  proof
    assume "py_round1 x = of_int \<lfloor>x * 10\<rfloor> / 10"
    with f show ?thesis by (simp add: divide_le_cancel)
  next
    assume a: "py_round1 x = of_int (\<lfloor>x * 10\<rfloor> + 1) / 10 \<and> of_int \<lfloor>x * 10\<rfloor> < x * 10"
    then have "(of_int \<lfloor>x * 10\<rfloor> :: rat) < of_int b" using le by simp
    then have "\<lfloor>x * 10\<rfloor> + 1 \<le> b" by simp
    then have "(of_int (\<lfloor>x * 10\<rfloor> + 1) :: rat) \<le> of_int b" by (simp only: of_int_le_iff)
    with a show ?thesis by (simp add: divide_le_cancel)
  qed
qed

lemma py_round1_mono: "x \<le> y \<Longrightarrow> py_round1 x \<le> py_round1 y"
proof -
  assume xy: "x \<le> y"
  let ?f = "\<lfloor>x * 10\<rfloor>" and ?g = "\<lfloor>y * 10\<rfloor>"
  from xy have fg: "?f \<le> ?g" by (simp add: floor_mono)
  show ?thesis
  proof (cases "?f = ?g")
    case True
    with xy show ?thesis unfolding py_round1_def Let_def
      by (auto simp: divide_le_cancel)
  next
    case False
    with fg have "?f + 1 \<le> ?g" by simp
    then have "(of_int (?f + 1) :: rat) \<le> of_int ?g" by (simp only: of_int_le_iff)
    then have "of_int (?f + 1) \<le> y * 10"
      by (rule order_trans) simp
    then have l: "of_int (?f + 1) / 10 \<le> py_round1 y" by (rule py_round1_lower)
    have "x * 10 \<le> of_int (?f + 1)" using floor_correct [of "x * 10"] by simp
    then have "py_round1 x \<le> of_int (?f + 1) / 10" by (rule py_round1_upper)
    from this l show ?thesis by (rule order_trans)
  qed
qed

lemma py_round1_range: "0 \<le> x \<Longrightarrow> x \<le> 100 \<Longrightarrow> 0 \<le> py_round1 x \<and> py_round1 x \<le> 100"
  using py_round1_lower [of 0 x] py_round1_upper [of x 1000] by simp

lemma py_round1_ge15: "15 \<le> x \<Longrightarrow> 15 \<le> py_round1 x"
  using py_round1_lower [of 150 x] by simp

lemma humidity_term:
  "(case hum of None \<Rightarrow> (0 :: rat)
    | Some h \<Rightarrow> if h \<noteq> 0 then 0 + max 0 (h - 60) * (8 / 10) else 0)
   = (case hum of None \<Rightarrow> 0 | Some h \<Rightarrow> max 0 (h - 60) * (8 / 10))"
  by (cases hum) simp_all

lemma pressure_term:
  "(if (p :: rat) > 0 then a + min 30 (p * 8) else a)
   = a + (if p > 0 then min 30 (p * 8) else 0)"
  by simp

lemma compute_landslide_score_eq:
  "compute_landslide_score hum (Some p) elev_m =
     Inr (py_round1 (clamped_score hum p elev_m), label_of_score (clamped_score hum p elev_m))"
  by (simp only: compute_landslide_score_def clamped_score_def Let_def humidity_term
      pressure_term option.case)

lemma clamp_range: "0 \<le> max 0 (min 100 (x :: rat)) \<and> max 0 (min 100 x) \<le> 100"
  by simp

lemma clamped_score_range: "0 \<le> clamped_score hum p e \<and> clamped_score hum p e \<le> 100"
  unfolding clamped_score_def by (rule clamp_range)

lemma clamped_score_None:
  "clamped_score None p e =
     max 0 (min 100 ((if p > 0 then min 30 (p * 8) else 0) + min 15 ((e - 500) / 100)))"
  by (simp only: clamped_score_def option.case add_0_left)

lemma clamped_score_zero: "clamped_score (Some 0) p e = clamped_score None p e"
proof -
  have "max 0 ((0 :: rat) - 60) * (8 / 10) = 0" by simp
  then show ?thesis by (simp only: clamped_score_def option.case)
qed

lemma clamp_mono: "(a::rat) \<le> b \<Longrightarrow> max 0 (min 100 a) \<le> max 0 (min 100 b)"
  by (simp add: max_def min_def)

lemma clamped_score_mono_hum:
  "h1 \<le> h2 \<Longrightarrow> clamped_score (Some h1) p e \<le> clamped_score (Some h2) p e"
proof -
  assume "h1 \<le> h2"
  then have "max 0 (h1 - 60) \<le> max 0 (h2 - 60)" by (simp add: max_def)
  then have "max 0 (h1 - 60) * (8 / 10) \<le> max 0 (h2 - 60) * (8 / 10)"
    by (rule mult_right_mono) simp
  then show ?thesis
    unfolding clamped_score_def option.case by (intro clamp_mono add_right_mono)
qed

lemma clamped_score_mono_drop:
  "p1 \<le> p2 \<Longrightarrow> clamped_score hum p1 e \<le> clamped_score hum p2 e"
proof -
  assume "p1 \<le> p2"
  then have "(if p1 > 0 then min 30 (p1 * 8) else 0) \<le> (if p2 > 0 then min 30 (p2 * 8) else 0)"
    by (simp add: min_def)
  then show ?thesis
    unfolding clamped_score_def by (intro clamp_mono add_right_mono add_left_mono)
qed

lemma clamped_score_default_ge: "15 \<le> clamped_score hum p default_elev_m"
  unfolding clamped_score_def default_elev_m_def
  by (auto simp: max_def min_def split: option.splits)

lemmas score_eval =
  compute_landslide_score_def default_elev_m_def py_round1_def label_of_score_def Let_def

lemma score_at_70_2: "compute_landslide_score (Some 70) (Some 2) 2000 = Inr (39, ''mid'')"
  by (simp add: score_eval)

lemma score_at_80_2: "compute_landslide_score (Some 80) (Some 2) 2000 = Inr (47, ''mid'')"
  by (simp add: score_eval)

lemma score_at_70_1: "compute_landslide_score (Some 70) (Some 1) 2000 = Inr (31, ''no'')"
  by (simp add: score_eval)

lemma score_at_None_2: "compute_landslide_score None (Some 2) 2000 = Inr (31, ''no'')"
  by (simp add: score_eval)

lemma score_at_0_2: "compute_landslide_score (Some 0) (Some 2) 2000 = Inr (31, ''no'')"
  by (simp add: score_eval)

subsection \<open>Claims about the scorer\<close>

text \<open>
  C2 (as amended). An absent humidity (\<^verbatim>\<open>hum = None\<close>) contributes 0: with a numeric
  pressure drop the scorer returns normally, with the result it returns for humidity 0, which
  is the clamped sum of the pressure and elevation terms alone. An absent pressure drop is
  not accepted: \<^verbatim>\<open>pres_drop_3h > 0\<close> raises \<^verbatim>\<open>TypeError\<close>, whatever the humidity.
\<close>

theorem null_humidity_scores_as_zero:
  "compute_landslide_score None (Some p) elev_m = compute_landslide_score (Some 0) (Some p) elev_m
   \<and> (\<exists>score label. compute_landslide_score None (Some p) elev_m = Inr (score, label))
   \<and> compute_landslide_score None (Some p) elev_m
       = Inr (py_round1 (max 0 (min 100 ((if p > 0 then min 30 (p * 8) else 0)
                                          + min 15 ((elev_m - 500) / 100)))),
              label_of_score (max 0 (min 100 ((if p > 0 then min 30 (p * 8) else 0)
                                          + min 15 ((elev_m - 500) / 100)))))
   \<and> compute_landslide_score hum None elev_m = Inl TypeError"
proof (intro conjI)
  show "compute_landslide_score None (Some p) elev_m
          = compute_landslide_score (Some 0) (Some p) elev_m"
    by (simp only: compute_landslide_score_eq clamped_score_zero)
  show "\<exists>score label. compute_landslide_score None (Some p) elev_m = Inr (score, label)"
    unfolding compute_landslide_score_eq by (intro exI) (rule refl)
  show "compute_landslide_score None (Some p) elev_m
       = Inr (py_round1 (max 0 (min 100 ((if p > 0 then min 30 (p * 8) else 0)
                                          + min 15 ((elev_m - 500) / 100)))),
              label_of_score (max 0 (min 100 ((if p > 0 then min 30 (p * 8) else 0)
                                          + min 15 ((elev_m - 500) / 100)))))"
    by (simp only: compute_landslide_score_eq clamped_score_None)
  show "compute_landslide_score hum None elev_m = Inl TypeError"
    by (simp only: compute_landslide_score_def Let_def option.case)
qed

theorem null_humidity_scores_as_zero_witness:
  "compute_landslide_score None (Some 2) 2000 = Inr (31, ''no'')
   \<and> compute_landslide_score (Some 0) (Some 2) 2000 = Inr (31, ''no'')
   \<and> compute_landslide_score (Some 80) None 2000 = Inl TypeError"
  using null_humidity_scores_as_zero [of 2 2000 "Some 80"]
  by (simp only: score_at_None_2 score_at_0_2)

text \<open>
  C2 as stated fails for the pressure drop: with humidity 80 and the default elevation,
  passing \<^verbatim>\<open>None\<close> raises, while passing 0 returns the score 31 with the label
  \<^verbatim>\<open>no\<close>.
\<close>

theorem null_pressure_drop_counterexample:
  "compute_landslide_score (Some 80) None default_elev_m = Inl TypeError
   \<and> compute_landslide_score (Some 80) (Some 0) default_elev_m = Inr (31, ''no'')"
  by (simp add: score_eval)

lemma rounded_at_least:
  "85 \<le> c \<Longrightarrow> 85 \<le> py_round1 c" "60 \<le> c \<Longrightarrow> 60 \<le> py_round1 c"
  "35 \<le> c \<Longrightarrow> 35 \<le> py_round1 c"
  using py_round1_lower [of 850 c] py_round1_lower [of 600 c] py_round1_lower [of 350 c]
  by simp_all

lemma rounded_at_most:
  "c < 85 \<Longrightarrow> py_round1 c \<le> 85" "c < 60 \<Longrightarrow> py_round1 c \<le> 60"
  "c < 35 \<Longrightarrow> py_round1 c \<le> 35"
  using py_round1_upper [of c 850] py_round1_upper [of c 600] py_round1_upper [of c 350]
  by simp_all

lemma label_of_score_bands:
  "(label_of_score c = ''confirm 99%'' \<longleftrightarrow> 85 \<le> c)
   \<and> (label_of_score c = ''high'' \<longleftrightarrow> 60 \<le> c \<and> c < 85)
   \<and> (label_of_score c = ''mid'' \<longleftrightarrow> 35 \<le> c \<and> c < 60)
   \<and> (label_of_score c = ''no'' \<longleftrightarrow> c < 35)"
  by (simp add: label_of_score_def)

lemma floor_numeral_quotient:
  "\<lfloor>numeral a / numeral b :: rat\<rfloor> = numeral a div numeral b"
  using floor_divide_of_int_eq [of "numeral a" "numeral b", where ?'a = rat] by simp

lemma score_at_boundaries:
  "compute_landslide_score None (Some (5 / 2)) 2000 = Inr (35, ''mid'')"
  "compute_landslide_score (Some 85) (Some (25 / 8)) 2000 = Inr (60, ''high'')"
  "compute_landslide_score (Some 110) (Some 4) 2000 = Inr (85, ''confirm 99%'')"
  "compute_landslide_score None (Some (2495 / 1000)) 2000 = Inr (35, ''no'')"
  by (simp_all add: score_eval floor_numeral_quotient)

text \<open>
  C5 (as amended). The label is chosen from the score as clamped on line 158, before it is
  rounded: \<^verbatim>\<open>confirm 99%\<close> (CONFIRM) exactly from 85, \<^verbatim>\<open>high\<close> exactly on
  \<open>[60, 85)\<close>, \<^verbatim>\<open>mid\<close> exactly on \<open>[35, 60)\<close>, \<^verbatim>\<open>no\<close> exactly below 35: the bands
  are exhaustive, do not overlap, and an unrounded score of exactly 35, 60 or 85 takes the
  higher band. The score returned is that score rounded to one decimal. So a returned score
  strictly inside a band carries that band's label, and each label confines the returned score
  to the closure of its band; a returned score of exactly 35, 60 or 85 carries the label of
  the band above or of the band below.
\<close>

theorem label_bands_before_rounding:
  fixes hum p elev_m c r l
  defines "c \<equiv> clamped_score hum p elev_m"
    and "r \<equiv> py_round1 c"
    and "l \<equiv> label_of_score c"
  shows "compute_landslide_score hum (Some p) elev_m = Inr (r, l)
       \<and> 0 \<le> c \<and> c \<le> 100
       \<and> (l = ''confirm 99%'' \<longleftrightarrow> 85 \<le> c)
       \<and> (l = ''high'' \<longleftrightarrow> 60 \<le> c \<and> c < 85)
       \<and> (l = ''mid'' \<longleftrightarrow> 35 \<le> c \<and> c < 60)
       \<and> (l = ''no'' \<longleftrightarrow> c < 35)
       \<and> (85 < r \<longrightarrow> l = ''confirm 99%'')
       \<and> (60 < r \<and> r < 85 \<longrightarrow> l = ''high'')
       \<and> (35 < r \<and> r < 60 \<longrightarrow> l = ''mid'')
       \<and> (r < 35 \<longrightarrow> l = ''no'')
       \<and> (l = ''confirm 99%'' \<longrightarrow> 85 \<le> r)
       \<and> (l = ''high'' \<longrightarrow> 60 \<le> r \<and> r \<le> 85)
       \<and> (l = ''mid'' \<longrightarrow> 35 \<le> r \<and> r \<le> 60)
       \<and> (l = ''no'' \<longrightarrow> r \<le> 35)"
proof -
  have eq: "compute_landslide_score hum (Some p) elev_m = Inr (r, l)"
    unfolding r_def l_def c_def by (rule compute_landslide_score_eq)
  have rng: "0 \<le> c" "c \<le> 100"
    unfolding c_def using clamped_score_range [of hum p elev_m] by simp_all
  have conf: "l = ''confirm 99%'' \<longleftrightarrow> 85 \<le> c"
    and high: "l = ''high'' \<longleftrightarrow> 60 \<le> c \<and> c < 85"
    and mid: "l = ''mid'' \<longleftrightarrow> 35 \<le> c \<and> c < 60"
    and no: "l = ''no'' \<longleftrightarrow> c < 35"
    unfolding l_def using label_of_score_bands [of c] by blast+
  have ge: "85 \<le> c \<Longrightarrow> 85 \<le> r" "60 \<le> c \<Longrightarrow> 60 \<le> r" "35 \<le> c \<Longrightarrow> 35 \<le> r"
    unfolding r_def by (simp_all only: rounded_at_least)
  have le: "c < 85 \<Longrightarrow> r \<le> 85" "c < 60 \<Longrightarrow> r \<le> 60" "c < 35 \<Longrightarrow> r \<le> 35"
    unfolding r_def by (simp_all only: rounded_at_most)
  have u1: "85 < r \<longrightarrow> l = ''confirm 99%''"
  proof
    assume "85 < r"
    with le(1) have "\<not> c < 85" by fastforce
    then show "l = ''confirm 99%''" unfolding conf by simp
  qed
  have u2: "60 < r \<and> r < 85 \<longrightarrow> l = ''high''"
  proof
    assume a: "60 < r \<and> r < 85"
    with le(2) have "\<not> c < 60" by fastforce
    moreover from a ge(1) have "\<not> 85 \<le> c" by fastforce
    ultimately show "l = ''high''" unfolding high by simp
  qed
  have u3: "35 < r \<and> r < 60 \<longrightarrow> l = ''mid''"
  proof
    assume a: "35 < r \<and> r < 60"
    with le(3) have "\<not> c < 35" by fastforce
    moreover from a ge(2) have "\<not> 60 \<le> c" by fastforce
    ultimately show "l = ''mid''" unfolding mid by simp
  qed
  have u4: "r < 35 \<longrightarrow> l = ''no''"
  proof
    assume "r < 35"
    with ge(3) have "\<not> 35 \<le> c" by fastforce
    then show "l = ''no''" unfolding no by simp
  qed
  have d1: "l = ''confirm 99%'' \<longrightarrow> 85 \<le> r"
    unfolding conf using ge(1) by blast
  have d2: "l = ''high'' \<longrightarrow> 60 \<le> r \<and> r \<le> 85"
    unfolding high using ge(2) le(1) by blast
  have d3: "l = ''mid'' \<longrightarrow> 35 \<le> r \<and> r \<le> 60"
    unfolding mid using ge(3) le(2) by blast
  have d4: "l = ''no'' \<longrightarrow> r \<le> 35"
    unfolding no using le(3) by blast
  from eq rng conf high mid no u1 u2 u3 u4 d1 d2 d3 d4 show ?thesis
    by (intro conjI)
qed

theorem label_bands_before_rounding_witness:
  "compute_landslide_score (Some 80) (Some 2) 2000 = Inr (47, ''mid'')
   \<and> py_round1 (clamped_score (Some 80) 2 2000) = 47
   \<and> label_of_score (clamped_score (Some 80) 2 2000) = ''mid''
   \<and> (35 :: rat) < 47 \<and> (47 :: rat) < 60
   \<and> compute_landslide_score None (Some (5 / 2)) 2000 = Inr (35, ''mid'')
   \<and> compute_landslide_score (Some 85) (Some (25 / 8)) 2000 = Inr (60, ''high'')
   \<and> compute_landslide_score (Some 110) (Some 4) 2000 = Inr (85, ''confirm 99%'')"
proof -
  note t = label_bands_before_rounding [of "Some 80" 2 2000]
  from t have "compute_landslide_score (Some 80) (Some 2) 2000 =
      Inr (py_round1 (clamped_score (Some 80) 2 2000),
           label_of_score (clamped_score (Some 80) 2 2000))"
    by (rule conjunct1)
  then have "Inr (47, ''mid'') =
      (Inr (py_round1 (clamped_score (Some 80) 2 2000),
            label_of_score (clamped_score (Some 80) 2 2000)) :: py_error + rat \<times> string)"
    by (simp only: score_at_80_2)
  then have v: "py_round1 (clamped_score (Some 80) 2 2000) = 47"
    "label_of_score (clamped_score (Some 80) 2 2000) = ''mid''"
    by (simp_all only: sum.inject prod.inject)
  have n: "(35 :: rat) < 47" "(47 :: rat) < 60" by simp_all
  from score_at_80_2 v n score_at_boundaries(1-3) show ?thesis by (intro conjI)
qed

text \<open>
  C5 as stated fails at the boundary of the returned score: without humidity and with a
  pressure drop of 2.495 the clamped score is \<open>19.96 + 15 = 34.96\<close>, labelled \<^verbatim>\<open>no\<close>,
  and the score returned is 35.0; the returned score 35 does not carry the label
  \<^verbatim>\<open>mid\<close>.
\<close>

theorem rounded_boundary_counterexample:
  "compute_landslide_score None (Some (2495 / 1000)) default_elev_m = Inr (35, ''no'')"
  by (simp add: score_eval floor_numeral_quotient)

text \<open>
  C6. Humidity 80 and a pressure drop of 2 at the default elevation give the score
  \<open>16 + 16 + 15 = 47\<close> and the label \<^verbatim>\<open>mid\<close>.
\<close>

theorem score_example:
  "compute_landslide_score (Some 80) (Some 2) default_elev_m = Inr (47, ''mid'')"
  by (simp add: score_eval)

text \<open>
  C7. For every humidity (absent or numeric), pressure drop and elevation the scorer returns
  a score in \<open>[0, 100]\<close>; for a fixed pressure drop the score does not decrease when the
  humidity grows from \<open>h1 \<ge> 60\<close> to \<open>h2\<close>, and for a fixed humidity it does not decrease
  when the pressure drop grows from \<open>p1 > 0\<close> to \<open>p2\<close>.
\<close>

theorem score_range_and_monotone:
  "(\<exists>s l. compute_landslide_score hum (Some p) elev_m = Inr (s, l) \<and> 0 \<le> s \<and> s \<le> 100)
   \<and> (60 \<le> h1 \<and> h1 \<le> h2 \<longrightarrow>
        (\<exists>s1 l1 s2 l2. compute_landslide_score (Some h1) (Some p) elev_m = Inr (s1, l1)
           \<and> compute_landslide_score (Some h2) (Some p) elev_m = Inr (s2, l2) \<and> s1 \<le> s2))
   \<and> (0 < p1 \<and> p1 \<le> p2 \<longrightarrow>
        (\<exists>s1 l1 s2 l2. compute_landslide_score hum (Some p1) elev_m = Inr (s1, l1)
           \<and> compute_landslide_score hum (Some p2) elev_m = Inr (s2, l2) \<and> s1 \<le> s2))"
  unfolding compute_landslide_score_eq
  using clamped_score_range [of hum p elev_m]
  by (auto intro!: py_round1_mono clamped_score_mono_hum clamped_score_mono_drop
      dest: py_round1_range)

theorem score_range_and_monotone_witness:
  "(60 :: rat) \<le> 70 \<and> (70 :: rat) \<le> 80 \<and> (0 :: rat) < 1 \<and> (1 :: rat) \<le> 2
   \<and> compute_landslide_score (Some 70) (Some 2) 2000 = Inr (39, ''mid'')
   \<and> compute_landslide_score (Some 80) (Some 2) 2000 = Inr (47, ''mid'')
   \<and> compute_landslide_score (Some 70) (Some 1) 2000 = Inr (31, ''no'')
   \<and> (39 :: rat) \<le> 47 \<and> (31 :: rat) \<le> 39"
  using score_range_and_monotone [of "Some 70" 2 2000 70 80 1 2]
  by (simp only: score_at_70_2 score_at_80_2 score_at_70_1) simp

text \<open>
  C8. \<^verbatim>\<open>pm25_to_category\<close>: \<^verbatim>\<open>None\<close> gives \<^verbatim>\<open>N/A\<close> (UNKNOWN); a value up to 12
  gives \<^verbatim>\<open>Good\<close>, up to 35.4 \<^verbatim>\<open>Moderate\<close>, up to 55.4
  \<^verbatim>\<open>Unhealthy for Sensitive Groups\<close>, up to 150.4 \<^verbatim>\<open>Unhealthy\<close>, up to 250.4
  \<^verbatim>\<open>Very Unhealthy\<close>, anything larger \<^verbatim>\<open>Hazardous\<close>; each upper bound belongs to its
  band, so 12 is Good, 12.1 Moderate and 500 Hazardous.
\<close>

theorem aqi_bands:
  "pm25_to_category None = ''N/A''
   \<and> (a \<le> 12 \<longrightarrow> pm25_to_category (Some a) = ''Good'')
   \<and> (12 < b \<and> b \<le> 354 / 10 \<longrightarrow> pm25_to_category (Some b) = ''Moderate'')
   \<and> (354 / 10 < c \<and> c \<le> 554 / 10 \<longrightarrow>
        pm25_to_category (Some c) = ''Unhealthy for Sensitive Groups'')
   \<and> (554 / 10 < d \<and> d \<le> 1504 / 10 \<longrightarrow> pm25_to_category (Some d) = ''Unhealthy'')
   \<and> (1504 / 10 < e \<and> e \<le> 2504 / 10 \<longrightarrow> pm25_to_category (Some e) = ''Very Unhealthy'')
   \<and> (2504 / 10 < f \<longrightarrow> pm25_to_category (Some f) = ''Hazardous'')
   \<and> pm25_to_category (Some 12) = ''Good''
   \<and> pm25_to_category (Some (121 / 10)) = ''Moderate''
   \<and> pm25_to_category (Some 500) = ''Hazardous''"
  by (simp add: pm25_to_category_def)

theorem aqi_bands_witness:
  "(12 :: rat) \<le> 12 \<and> pm25_to_category (Some 12) = ''Good''
   \<and> (12 :: rat) < 354 / 10 \<and> pm25_to_category (Some (354 / 10)) = ''Moderate''
   \<and> (354 / 10 :: rat) < 554 / 10
   \<and> pm25_to_category (Some (554 / 10)) = ''Unhealthy for Sensitive Groups''
   \<and> (554 / 10 :: rat) < 1504 / 10 \<and> pm25_to_category (Some (1504 / 10)) = ''Unhealthy''
   \<and> (1504 / 10 :: rat) < 2504 / 10 \<and> pm25_to_category (Some (2504 / 10)) = ''Very Unhealthy''
   \<and> (2504 / 10 :: rat) < 2505 / 10 \<and> pm25_to_category (Some (2505 / 10)) = ''Hazardous''"
  using aqi_bands [of 12 "354 / 10" "554 / 10" "1504 / 10" "2504 / 10" "2505 / 10"]
  by simp

text \<open>
  C9. \<^verbatim>\<open>rainfall_scale\<close>: below 0.2 mm \<^verbatim>\<open>No\<close>, from 0.2 below 5 \<^verbatim>\<open>Mid\<close>, from 5
  below 20 \<^verbatim>\<open>High\<close>, from 20 \<^verbatim>\<open>Confirm 99%\<close> (CONFIRM); so 0.19 is No, 0.2 Mid,
  19.99 High and 20 Confirm.
\<close>

theorem rainfall_bands:
  "(a < 2 / 10 \<longrightarrow> rainfall_scale a = ''No'')
   \<and> (2 / 10 \<le> b \<and> b < 5 \<longrightarrow> rainfall_scale b = ''Mid'')
   \<and> (5 \<le> c \<and> c < 20 \<longrightarrow> rainfall_scale c = ''High'')
   \<and> (20 \<le> d \<longrightarrow> rainfall_scale d = ''Confirm 99%'')
   \<and> rainfall_scale (19 / 100) = ''No'' \<and> rainfall_scale (2 / 10) = ''Mid''
   \<and> rainfall_scale (1999 / 100) = ''High'' \<and> rainfall_scale 20 = ''Confirm 99%''"
  by (simp add: rainfall_scale_def)

theorem rainfall_bands_witness:
  "(0 :: rat) < 2 / 10 \<and> rainfall_scale 0 = ''No''
   \<and> (2 / 10 :: rat) \<le> 1 \<and> (1 :: rat) < 5 \<and> rainfall_scale 1 = ''Mid''
   \<and> (5 :: rat) \<le> 5 \<and> (5 :: rat) < 20 \<and> rainfall_scale 5 = ''High''
   \<and> (20 :: rat) \<le> 45 \<and> rainfall_scale 45 = ''Confirm 99%''"
  using rainfall_bands [of 0 1 5 45]
  by simp

section \<open>Properties of the data gathering\<close>

subsection \<open>Exceptions propagate through the steps of a block\<close>

lemma py_bind_simps [simp]: "py_bind (Inr v) f = f v" "py_bind (Inl e) f = Inl e"
  by (simp_all add: py_bind_def)

lemma py_bind_Inr: "py_bind m f = Inr r \<Longrightarrow> \<exists>v. m = Inr v \<and> f v = Inr r"
  by (cases m) simp_all

lemma py_bindE:
  assumes "py_bind m f = Inr r"
  obtains v where "m = Inr v" and "f v = Inr r"
  using assms by (cases m) simp_all

subsection \<open>The body of the loop\<close>

lemma py_index_nonneg: "py_index t key = Inr i \<Longrightarrow> 0 \<le> i"
  by (cases t) (auto split: option.splits)

lemma current_index_nonneg: "0 \<le> current_index hourly key"
  unfolding current_index_def
  by (auto split: sum.splits dest!: py_bind_Inr py_index_nonneg)

lemma point_body_sources:
  assumes "point_body flt pio b = Inr r"
  obtains w hourly where "weather pio = Inr w" and "getitem_key w ''hourly'' = Inr hourly"
  using assms unfolding point_body_def by (cases b) (auto elim!: py_bindE)

lemma point_body_steps:
  assumes body: "point_body flt pio (nm, la, lo) = Inr r"
    and w: "weather pio = Inr w"
    and h: "getitem_key w ''hourly'' = Inr hourly"
  obtains p_now n p_next1 hum pres tmp pres_prev
  where "hourly_float flt hourly ''precipitation'' (current_index hourly (now_key pio)) = Inr p_now"
    and "py_bind (getitem_key hourly ''precipitation'') py_len = Inr n"
    and "(if current_index hourly (now_key pio) + 1 < n
          then hourly_float flt hourly ''precipitation'' (current_index hourly (now_key pio) + 1)
          else Inr 0) = Inr p_next1"
    and "hourly_float flt hourly ''relativehumidity_2m'' (current_index hourly (now_key pio)) = Inr hum"
    and "hourly_float flt hourly ''pressure_msl'' (current_index hourly (now_key pio)) = Inr pres"
    and "hourly_float flt hourly ''temperature_2m'' (current_index hourly (now_key pio)) = Inr tmp"
    and "(if current_index hourly (now_key pio) \<ge> 3
          then map_sum id Some (hourly_float flt hourly ''pressure_msl''
                 (current_index hourly (now_key pio) - 3))
          else Inr None) = Inr pres_prev"
    and "r = \<lparr>name = nm, lat = la, lon = lo,
              temp = Some tmp, humid = Some hum, pressure = Some pres,
              precip_now = p_now, precip_next1 = p_next1,
              pressure_drop_3h = pressure_drop pres_prev pres,
              landslide_score =
                py_round1 (clamped_score (Some hum) (pressure_drop pres_prev pres) default_elev_m),
              landslide_label =
                label_of_score (clamped_score (Some hum) (pressure_drop pres_prev pres) default_elev_m),
              pm25 = fst (read_air flt pio), pm10 = snd (read_air flt pio),
              aqi_category = pm25_to_category (fst (read_air flt pio)),
              error = None\<rparr>"
  using body
  unfolding point_body_def w h py_bind_simps Let_def prod.case compute_landslide_score_eq
  by (elim py_bindE) (simp add: split_beta)

lemma point_body_Inr:
  assumes "point_body flt pio b = Inr r"
  shows "error r = None \<and> name r = fst b \<and> lat r = fst (snd b) \<and> lon r = snd (snd b)
         \<and> temp r \<noteq> None \<and> humid r \<noteq> None \<and> pressure r \<noteq> None
         \<and> 15 \<le> landslide_score r"
proof -
  obtain nm la lo where b: "b = (nm, la, lo)" by (cases b)
  from assms obtain w hourly
    where w: "weather pio = Inr w" and h: "getitem_key w ''hourly'' = Inr hourly"
    by (rule point_body_sources)
  from assms [unfolded b] w h obtain hum d
    where "error r = None" "name r = nm" "lat r = la" "lon r = lo"
      "temp r \<noteq> None" "humid r \<noteq> None" "pressure r \<noteq> None"
      "landslide_score r = py_round1 (clamped_score (Some hum) d default_elev_m)"
    by (rule point_body_steps) simp
  with b py_round1_ge15 [OF clamped_score_default_ge [of "Some hum" d]] show ?thesis
    by simp
qed

lemma derived_fields:
  assumes body: "point_body flt pio b = Inr r"
    and w: "weather pio = Inr w"
    and h: "getitem_key w ''hourly'' = Inr hourly"
  defines "idx \<equiv> current_index hourly (now_key pio)"
  shows "0 \<le> idx"
    and "hourly_float flt hourly ''precipitation'' idx = Inr (precip_now r)"
    and "\<exists>n. py_bind (getitem_key hourly ''precipitation'') py_len = Inr n
           \<and> (if idx + 1 < n
               then hourly_float flt hourly ''precipitation'' (idx + 1) = Inr (precip_next1 r)
               else precip_next1 r = 0)"
    and "idx < 3 \<Longrightarrow> pressure_drop_3h r = 0"
    and "3 \<le> idx \<Longrightarrow>
           \<exists>prev pres. hourly_float flt hourly ''pressure_msl'' (idx - 3) = Inr prev
             \<and> hourly_float flt hourly ''pressure_msl'' idx = Inr pres
             \<and> pressure_drop_3h r = (if prev \<noteq> 0 then prev - pres else 0)"
proof -
  obtain nm la lo where b: "b = (nm, la, lo)" by (cases b)
  from body [unfolded b] w h obtain p_now n p_next1 pres pres_prev
    where now: "hourly_float flt hourly ''precipitation'' idx = Inr p_now"
      and len: "py_bind (getitem_key hourly ''precipitation'') py_len = Inr n"
      and nxt: "(if idx + 1 < n then hourly_float flt hourly ''precipitation'' (idx + 1)
                 else Inr 0) = Inr p_next1"
      and cur: "hourly_float flt hourly ''pressure_msl'' idx = Inr pres"
      and prv: "(if idx \<ge> 3
                 then map_sum id Some (hourly_float flt hourly ''pressure_msl'' (idx - 3))
                 else Inr None) = Inr pres_prev"
      and r: "precip_now r = p_now" "precip_next1 r = p_next1"
        "pressure_drop_3h r = pressure_drop pres_prev pres"
    unfolding idx_def by (rule point_body_steps) simp
  show "0 \<le> idx" unfolding idx_def by (rule current_index_nonneg)
  from now r show "hourly_float flt hourly ''precipitation'' idx = Inr (precip_now r)"
    by simp
  from len nxt r show "\<exists>n. py_bind (getitem_key hourly ''precipitation'') py_len = Inr n
           \<and> (if idx + 1 < n
               then hourly_float flt hourly ''precipitation'' (idx + 1) = Inr (precip_next1 r)
               else precip_next1 r = 0)"
    by (cases "idx + 1 < n") simp_all
  from prv r show "idx < 3 \<Longrightarrow> pressure_drop_3h r = 0"
    by (auto simp: pressure_drop_def)
  show "\<exists>prev pres. hourly_float flt hourly ''pressure_msl'' (idx - 3) = Inr prev
             \<and> hourly_float flt hourly ''pressure_msl'' idx = Inr pres
             \<and> pressure_drop_3h r = (if prev \<noteq> 0 then prev - pres else 0)"
    if "3 \<le> idx"
  proof (cases "hourly_float flt hourly ''pressure_msl'' (idx - 3)")
    case (Inl e)
    with prv that show ?thesis by simp
  next
    case (Inr prev)
    with prv that have "pres_prev = Some prev" by auto
    with Inr cur r show ?thesis by (simp add: pressure_drop_def)
  qed
qed

subsection \<open>The loop\<close>

lemma gather_loop_append:
  "gather_loop flt io i bs results =
     results @ map (\<lambda>(j, b). entry_for flt (io j) b) (enumerate i bs)"
  by (induction bs arbitrary: i results) simp_all

lemma gather_length: "length (gather_bubble_data flt io registry) = length registry"
  by (simp add: gather_bubble_data_def gather_loop_append)

lemma gather_nth:
  "i < length registry \<Longrightarrow>
   gather_bubble_data flt io registry ! i = entry_for flt (io i) (registry ! i)"
  by (simp add: gather_bubble_data_def gather_loop_append nth_enumerate_eq)

lemma entry_for_success: "point_body flt pio b = Inr r \<Longrightarrow> entry_for flt pio b = r"
  by (simp add: entry_for_def)

lemma entry_for_failure:
  "point_body flt pio b = Inl e \<Longrightarrow> entry_for flt pio b = placeholder b e"
  by (simp add: entry_for_def)

lemma placeholder_fields:
  "name (placeholder b e) = fst b \<and> lat (placeholder b e) = fst (snd b)
   \<and> lon (placeholder b e) = snd (snd b) \<and> error (placeholder b e) = Some e
   \<and> landslide_score (placeholder b e) = 0 \<and> landslide_label (placeholder b e) = ''no''
   \<and> aqi_category (placeholder b e) = ''N/A'' \<and> temp (placeholder b e) = None
   \<and> humid (placeholder b e) = None \<and> pressure (placeholder b e) = None
   \<and> pm25 (placeholder b e) = None \<and> pm10 (placeholder b e) = None"
  by (cases b) (simp add: placeholder_def)

lemma point_body_weather_fails: "weather pio = Inl e \<Longrightarrow> point_body flt pio b = Inl e"
  by (cases b) (simp add: point_body_def)

subsection \<open>Running the model on the sample inputs\<close>

lemma sample_index: "current_index sample_hourly ''2025-06-01T03:00'' = 3"
  by (simp add: current_index_def sample_hourly_def sample_times_def py_bind_simps)

lemma sample_precip: "hourly_float flt sample_hourly ''precipitation'' 3 = Inr (3 / 10)"
  by (simp add: hourly_float_def sample_hourly_def py_bind_simps seq_index_def)

lemma sample_len: "py_bind (getitem_key sample_hourly ''precipitation'') py_len = Inr 4"
  by (simp add: sample_hourly_def py_bind_simps)

lemma sample_air: "read_air flt sample_io = (None, None)"
  by (simp add: read_air_def sample_io_def py_bind_simps)

lemma sample_score: "compute_landslide_score (Some 80) (Some 2) default_elev_m = Inr (47, ''mid'')"
  by (simp add: default_elev_m_def score_at_80_2)

lemma sample_hum: "hourly_float flt sample_hourly ''relativehumidity_2m'' 3 = Inr 80"
  and sample_pres: "hourly_float flt sample_hourly ''pressure_msl'' 3 = Inr 1005"
  and sample_temp: "hourly_float flt sample_hourly ''temperature_2m'' 3 = Inr 11"
  and sample_prev: "hourly_float flt sample_hourly ''pressure_msl'' 0 = Inr 1007"
  by (simp_all add: hourly_float_def sample_hourly_def py_bind_def seq_index_def)

lemma sample_body:
  "point_body flt sample_io (nm, la, lo) =
     Inr \<lparr>name = nm, lat = la, lon = lo, temp = Some 11, humid = Some 80,
          pressure = Some 1005, precip_now = 3 / 10, precip_next1 = 0, pressure_drop_3h = 2,
          landslide_score = 47, landslide_label = ''mid'', pm25 = None, pm10 = None,
          aqi_category = ''N/A'', error = None\<rparr>"
proof -
  have w: "weather sample_io = Inr (JObj [(''hourly'', sample_hourly)])"
    and n: "now_key sample_io = ''2025-06-01T03:00''"
    by (simp_all add: sample_io_def)
  have h: "getitem_key (JObj [(''hourly'', sample_hourly)]) ''hourly'' = Inr sample_hourly"
    by simp
  have d: "pressure_drop (Some 1007) 1005 = 2" by (simp add: pressure_drop_def)
  have c: "pm25_to_category None = ''N/A''" by (simp add: pm25_to_category_def)
  show ?thesis
    unfolding point_body_def w n
    by (simp add: py_bind_simps h sample_index sample_precip sample_len sample_air sample_score
        sample_hum sample_pres sample_temp sample_prev d c del: getitem_key.simps)
qed

lemma sample_registry_eq:
  "sample_registry =
     [(''Chowrasta / Mall'', 270359 / 10000, 882626 / 10000),
      (''Ghoom'', 270470 / 10000, 882632 / 10000),
      (''Lebong'', 270161 / 10000, 882536 / 10000)]"
  by (simp add: sample_registry_def BUBBLES_def)

lemma sample_world_simps:
  "sample_world 0 = sample_io" "sample_world 1 = failing_io" "sample_world 2 = sample_io"
  by (simp_all add: sample_world_def)

lemma sample_failure: "point_body flt failing_io b = Inl RequestException"
  by (rule point_body_weather_fails) (simp add: failing_io_def)

lemma sample_others:
  "\<forall>i < length sample_registry. i \<noteq> 1 \<longrightarrow>
     (\<exists>r. point_body flt (sample_world i) (sample_registry ! i) = Inr r)"
proof (intro allI impI)
  fix i assume "i < length sample_registry" and "i \<noteq> 1"
  then have w: "sample_world i = sample_io" by (simp add: sample_world_def)
  obtain nm la lo where "sample_registry ! i = (nm, la, lo)"
    by (cases "sample_registry ! i")
  with w show "\<exists>r. point_body flt (sample_world i) (sample_registry ! i) = Inr r"
    by (simp add: sample_body)
qed

subsection \<open>Claims about the gathered entries\<close>

text \<open>
  C1. If the processing of exactly one point \<open>k\<close> raises (for instance because its weather
  request fails, \<open>point_body_weather_fails\<close>) and every other point is processed without an
  exception, \<^verbatim>\<open>gather_bubble_data\<close> returns one entry per registry point, in registry
  order (entry \<open>i\<close> carries the name and coordinates of point \<open>i\<close>); entry \<open>k\<close>
  carries the error and the neutral values (score 0, label \<^verbatim>\<open>no\<close>, category
  \<^verbatim>\<open>N/A\<close>); every other entry carries no error and is the entry computed from its own
  data, with temperature, humidity and pressure present.
\<close>

theorem single_failure_isolated:
  fixes g
  assumes k: "k < length registry"
    and fails: "point_body flt (io k) (registry ! k) = Inl e"
    and others: "\<forall>i < length registry. i \<noteq> k \<longrightarrow>
                   (\<exists>r. point_body flt (io i) (registry ! i) = Inr r)"
  defines "g \<equiv> gather_bubble_data flt io registry"
  shows "length g = length registry
       \<and> (\<forall>i < length registry.
            name (g ! i) = fst (registry ! i) \<and> lat (g ! i) = fst (snd (registry ! i))
            \<and> lon (g ! i) = snd (snd (registry ! i)))
       \<and> error (g ! k) = Some e \<and> landslide_score (g ! k) = 0
       \<and> landslide_label (g ! k) = ''no'' \<and> aqi_category (g ! k) = ''N/A''
       \<and> (\<forall>i < length registry. i \<noteq> k \<longrightarrow>
            error (g ! i) = None \<and> point_body flt (io i) (registry ! i) = Inr (g ! i)
            \<and> temp (g ! i) \<noteq> None \<and> humid (g ! i) \<noteq> None \<and> pressure (g ! i) \<noteq> None)"
proof (intro conjI allI impI)
  show "length g = length registry" unfolding g_def by (rule gather_length)
next
  from k fails have gk: "g ! k = placeholder (registry ! k) e"
    unfolding g_def by (simp add: gather_nth entry_for_failure)
  show "error (g ! k) = Some e" "landslide_score (g ! k) = 0"
    "landslide_label (g ! k) = ''no''" "aqi_category (g ! k) = ''N/A''"
    unfolding gk by (simp_all add: placeholder_fields)
  fix i assume i: "i < length registry"
  show "name (g ! i) = fst (registry ! i)" "lat (g ! i) = fst (snd (registry ! i))"
    "lon (g ! i) = snd (snd (registry ! i))"
  proof -
    have "name (g ! i) = fst (registry ! i) \<and> lat (g ! i) = fst (snd (registry ! i))
          \<and> lon (g ! i) = snd (snd (registry ! i))"
    proof (cases "point_body flt (io i) (registry ! i)")
      case (Inl e')
      with i show ?thesis
        unfolding g_def by (simp add: gather_nth entry_for_failure placeholder_fields)
    next
      case (Inr r)
      with i point_body_Inr [OF Inr] show ?thesis
        unfolding g_def by (simp add: gather_nth entry_for_success)
    qed
    then show "name (g ! i) = fst (registry ! i)" "lat (g ! i) = fst (snd (registry ! i))"
      "lon (g ! i) = snd (snd (registry ! i))" by simp_all
  qed
next
  fix i assume i: "i < length registry" and ik: "i \<noteq> k"
  with others obtain r where r: "point_body flt (io i) (registry ! i) = Inr r" by blast
  with i have gi: "g ! i = r" unfolding g_def by (simp add: gather_nth entry_for_success)
  from point_body_Inr [OF r] r
  show "error (g ! i) = None" "point_body flt (io i) (registry ! i) = Inr (g ! i)"
    "temp (g ! i) \<noteq> None" "humid (g ! i) \<noteq> None" "pressure (g ! i) \<noteq> None"
    unfolding gi by simp_all
qed

theorem single_failure_isolated_witness:
  "length (gather_bubble_data (\<lambda>s. None) sample_world sample_registry) = 3
   \<and> name (gather_bubble_data (\<lambda>s. None) sample_world sample_registry ! 1) = ''Ghoom''
   \<and> error (gather_bubble_data (\<lambda>s. None) sample_world sample_registry ! 1)
       = Some RequestException
   \<and> landslide_score (gather_bubble_data (\<lambda>s. None) sample_world sample_registry ! 1) = 0
   \<and> landslide_label (gather_bubble_data (\<lambda>s. None) sample_world sample_registry ! 1) = ''no''
   \<and> aqi_category (gather_bubble_data (\<lambda>s. None) sample_world sample_registry ! 1) = ''N/A''
   \<and> name (gather_bubble_data (\<lambda>s. None) sample_world sample_registry ! 0)
       = ''Chowrasta / Mall''
   \<and> error (gather_bubble_data (\<lambda>s. None) sample_world sample_registry ! 0) = None
   \<and> humid (gather_bubble_data (\<lambda>s. None) sample_world sample_registry ! 0) = Some 80
   \<and> name (gather_bubble_data (\<lambda>s. None) sample_world sample_registry ! 2) = ''Lebong''
   \<and> error (gather_bubble_data (\<lambda>s. None) sample_world sample_registry ! 2) = None
   \<and> landslide_score (gather_bubble_data (\<lambda>s. None) sample_world sample_registry ! 2) = 47"
proof -
  have k: "1 < length sample_registry" by (simp add: sample_registry_eq)
  have f: "point_body (\<lambda>s. None) (sample_world 1) (sample_registry ! 1)
             = Inl RequestException"
    by (simp only: sample_world_simps sample_failure)
  note t = single_failure_isolated [OF k f sample_others]
  from t have len: "length (gather_bubble_data (\<lambda>s. None) sample_world sample_registry) = 3"
    by (simp add: sample_registry_eq)
  from t have
    "\<forall>i<3. i \<noteq> 1 \<longrightarrow> point_body (\<lambda>s. None) (sample_world i) (sample_registry ! i)
        = Inr (gather_bubble_data (\<lambda>s. None) sample_world sample_registry ! i)"
    by (simp add: sample_registry_eq)
  then have "point_body (\<lambda>s. None) (sample_world 0) (sample_registry ! 0)
        = Inr (gather_bubble_data (\<lambda>s. None) sample_world sample_registry ! 0)"
    and "point_body (\<lambda>s. None) (sample_world 2) (sample_registry ! 2)
        = Inr (gather_bubble_data (\<lambda>s. None) sample_world sample_registry ! 2)"
    by simp_all
  then have g0: "gather_bubble_data (\<lambda>s. None) sample_world sample_registry ! 0 =
       \<lparr>name = ''Chowrasta / Mall'', lat = 270359 / 10000, lon = 882626 / 10000,
        temp = Some 11, humid = Some 80,
        pressure = Some 1005, precip_now = 3 / 10, precip_next1 = 0, pressure_drop_3h = 2,
        landslide_score = 47, landslide_label = ''mid'', pm25 = None, pm10 = None,
        aqi_category = ''N/A'', error = None\<rparr>"
    and g2: "gather_bubble_data (\<lambda>s. None) sample_world sample_registry ! 2 =
       \<lparr>name = ''Lebong'', lat = 270161 / 10000, lon = 882536 / 10000,
        temp = Some 11, humid = Some 80,
        pressure = Some 1005, precip_now = 3 / 10, precip_next1 = 0, pressure_drop_3h = 2,
        landslide_score = 47, landslide_label = ''mid'', pm25 = None, pm10 = None,
        aqi_category = ''N/A'', error = None\<rparr>"
    by (simp_all add: sample_registry_eq sample_world_simps sample_body)
  from t have g1: "name (gather_bubble_data (\<lambda>s. None) sample_world sample_registry ! 1) = ''Ghoom''"
    by (simp add: sample_registry_eq)
  from t len g1 show ?thesis unfolding g0 g2 by simp
qed

text \<open>
  C3, at a response whose pressure three hours before the current hour is 0.0. The current
  hour is at index 3, \<^verbatim>\<open>pressure_msl[0]\<close> is 0 and \<^verbatim>\<open>pressure_msl[3]\<close> is 1005, so
  the claim gives \<^verbatim>\<open>pressure_drop_3h\<close> \<open>= 0 - 1005\<close>; the entry computed holds 0,
  because line 201 tests the truth value of \<^verbatim>\<open>pres_prev\<close> and 0.0 is false. The other
  derived fields, and the pressure drop for every non-zero earlier pressure, are as the claim
  states (\<open>derived_fields\<close>).
\<close>

theorem zero_previous_pressure_ignored:
  "current_index zero_pressure_hourly (now_key zero_pressure_io) = 3
   \<and> hourly_float flt zero_pressure_hourly ''pressure_msl'' (3 - 3) = Inr 0
   \<and> hourly_float flt zero_pressure_hourly ''pressure_msl'' 3 = Inr 1005
   \<and> point_body flt zero_pressure_io (nm, la, lo) =
       Inr \<lparr>name = nm, lat = la, lon = lo, temp = Some 11, humid = Some 80,
            pressure = Some 1005, precip_now = 3 / 10, precip_next1 = 0, pressure_drop_3h = 0,
            landslide_score = 31, landslide_label = ''no'', pm25 = None, pm10 = None,
            aqi_category = ''N/A'', error = None\<rparr>
   \<and> (0 :: rat) - 1005 \<noteq> 0"
proof -
  have n: "now_key zero_pressure_io = ''2025-06-01T03:00''"
    and w: "weather zero_pressure_io = Inr (JObj [(''hourly'', zero_pressure_hourly)])"
    by (simp_all add: zero_pressure_io_def)
  have h: "getitem_key (JObj [(''hourly'', zero_pressure_hourly)]) ''hourly''
             = Inr zero_pressure_hourly"
    by simp
  have i: "current_index zero_pressure_hourly ''2025-06-01T03:00'' = 3"
    by (simp add: current_index_def zero_pressure_hourly_def sample_times_def)
  have f: "hourly_float flt zero_pressure_hourly ''precipitation'' 3 = Inr (3 / 10)"
    "hourly_float flt zero_pressure_hourly ''relativehumidity_2m'' 3 = Inr 80"
    "hourly_float flt zero_pressure_hourly ''pressure_msl'' 3 = Inr 1005"
    "hourly_float flt zero_pressure_hourly ''temperature_2m'' 3 = Inr 11"
    "hourly_float flt zero_pressure_hourly ''pressure_msl'' 0 = Inr 0"
    by (simp_all add: hourly_float_def zero_pressure_hourly_def seq_index_def)
  have l: "py_bind (getitem_key zero_pressure_hourly ''precipitation'') py_len = Inr 4"
    by (simp add: zero_pressure_hourly_def)
  have a: "read_air flt zero_pressure_io = (None, None)"
    by (simp add: read_air_def zero_pressure_io_def)
  have d: "pressure_drop (Some 0) 1005 = 0" by (simp add: pressure_drop_def)
  have s: "compute_landslide_score (Some 80) (Some 0) default_elev_m = Inr (31, ''no'')"
    by (simp add: score_eval)
  have c: "pm25_to_category None = ''N/A''" by (simp add: pm25_to_category_def)
  have "point_body flt zero_pressure_io (nm, la, lo) =
       Inr \<lparr>name = nm, lat = la, lon = lo, temp = Some 11, humid = Some 80,
            pressure = Some 1005, precip_now = 3 / 10, precip_next1 = 0, pressure_drop_3h = 0,
            landslide_score = 31, landslide_label = ''no'', pm25 = None, pm10 = None,
            aqi_category = ''N/A'', error = None\<rparr>"
    unfolding point_body_def w n
    by (simp add: h i f l a d s c del: getitem_key.simps)
  with i f show ?thesis by (simp add: n)
qed

text \<open>
  C10. At the default elevation the scorer returns a score of at least 15 for every
  humidity (absent or numeric) and every pressure drop. Hence in the gathered list an entry
  of a point processed without an exception carries no error and a score of at least 15, and
  an entry whose score is below 15 is a placeholder: its score is 0, it carries an error, and
  the processing of its point raised.
\<close>

theorem default_elevation_floor:
  fixes flt io registry g
  defines "g \<equiv> gather_bubble_data flt io registry"
  shows "(\<exists>s l. compute_landslide_score hum (Some p) default_elev_m = Inr (s, l) \<and> 15 \<le> s)
       \<and> (\<forall>i < length registry.
            (\<exists>r. point_body flt (io i) (registry ! i) = Inr r) \<longrightarrow>
            error (g ! i) = None \<and> 15 \<le> landslide_score (g ! i))
       \<and> (\<forall>i < length registry.
            landslide_score (g ! i) < 15 \<longrightarrow>
            landslide_score (g ! i) = 0 \<and> error (g ! i) \<noteq> None
            \<and> (\<exists>e. point_body flt (io i) (registry ! i) = Inl e))"
proof (intro conjI allI impI)
  show "\<exists>s l. compute_landslide_score hum (Some p) default_elev_m = Inr (s, l) \<and> 15 \<le> s"
    unfolding compute_landslide_score_eq
    using py_round1_ge15 [OF clamped_score_default_ge [of hum p]] by blast
next
  fix i assume i: "i < length registry"
    and "\<exists>r. point_body flt (io i) (registry ! i) = Inr r"
  then obtain r where r: "point_body flt (io i) (registry ! i) = Inr r" by blast
  with i have "g ! i = r" unfolding g_def by (simp add: gather_nth entry_for_success)
  with point_body_Inr [OF r] show "error (g ! i) = None" "15 \<le> landslide_score (g ! i)"
    by simp_all
next
  fix i assume i: "i < length registry" and low: "landslide_score (g ! i) < 15"
  have "landslide_score (g ! i) = 0 \<and> error (g ! i) \<noteq> None
        \<and> (\<exists>e. point_body flt (io i) (registry ! i) = Inl e)"
  proof (cases "point_body flt (io i) (registry ! i)")
    case (Inl e)
    with i have "g ! i = placeholder (registry ! i) e"
      unfolding g_def by (simp add: gather_nth entry_for_failure)
    with Inl show ?thesis by (simp add: placeholder_fields)
  next
    case (Inr r)
    with i have "g ! i = r" unfolding g_def by (simp add: gather_nth entry_for_success)
    with point_body_Inr [OF Inr] low show ?thesis by simp
  qed
  then show "landslide_score (g ! i) = 0" "error (g ! i) \<noteq> None"
    "\<exists>e. point_body flt (io i) (registry ! i) = Inl e" by simp_all
qed

theorem default_elevation_floor_witness:
  "compute_landslide_score (Some 0) (Some 0) default_elev_m = Inr (15, ''no'')
   \<and> point_body (\<lambda>s. None) (sample_world 0) (sample_registry ! 0)
       = Inr (gather_bubble_data (\<lambda>s. None) sample_world sample_registry ! 0)
   \<and> error (gather_bubble_data (\<lambda>s. None) sample_world sample_registry ! 0) = None
   \<and> landslide_score (gather_bubble_data (\<lambda>s. None) sample_world sample_registry ! 0) = 47
   \<and> landslide_score (gather_bubble_data (\<lambda>s. None) sample_world sample_registry ! 1) = 0
   \<and> error (gather_bubble_data (\<lambda>s. None) sample_world sample_registry ! 1)
       = Some RequestException
   \<and> point_body (\<lambda>s. None) (sample_world 1) (sample_registry ! 1) = Inl RequestException"
proof -
  note t = default_elevation_floor [where hum = "Some 0" and p = 0 and registry = sample_registry
      and flt = "\<lambda>s. None" and io = sample_world]
  have s: "compute_landslide_score (Some 0) (Some 0) default_elev_m = Inr (15, ''no'')"
    by (simp add: score_eval)
  have b0: "point_body (\<lambda>s. None) (sample_world 0) (sample_registry ! 0) =
       Inr \<lparr>name = ''Chowrasta / Mall'', lat = 270359 / 10000, lon = 882626 / 10000,
        temp = Some 11, humid = Some 80,
        pressure = Some 1005, precip_now = 3 / 10, precip_next1 = 0, pressure_drop_3h = 2,
        landslide_score = 47, landslide_label = ''mid'', pm25 = None, pm10 = None,
        aqi_category = ''N/A'', error = None\<rparr>"
    by (simp add: sample_registry_eq sample_world_simps sample_body)
  have b1: "point_body (\<lambda>s. None) (sample_world 1) (sample_registry ! 1)
             = Inl RequestException"
    by (simp only: sample_world_simps sample_failure)
  have k0: "0 < length sample_registry" and k1: "1 < length sample_registry"
    by (simp_all add: sample_registry_eq)
  have g0: "gather_bubble_data (\<lambda>s. None) sample_world sample_registry ! 0 =
       \<lparr>name = ''Chowrasta / Mall'', lat = 270359 / 10000, lon = 882626 / 10000,
        temp = Some 11, humid = Some 80,
        pressure = Some 1005, precip_now = 3 / 10, precip_next1 = 0, pressure_drop_3h = 2,
        landslide_score = 47, landslide_label = ''mid'', pm25 = None, pm10 = None,
        aqi_category = ''N/A'', error = None\<rparr>"
    by (simp only: gather_nth [OF k0] entry_for_success [OF b0])
  have g1: "gather_bubble_data (\<lambda>s. None) sample_world sample_registry ! 1 =
       placeholder (sample_registry ! 1) RequestException"
    by (simp only: gather_nth [OF k1] entry_for_failure [OF b1])
  from t have "\<forall>i<3. (\<exists>r. point_body (\<lambda>s. None) (sample_world i) (sample_registry ! i) = Inr r) \<longrightarrow>
      error (gather_bubble_data (\<lambda>s. None) sample_world sample_registry ! i) = None
      \<and> 15 \<le> landslide_score (gather_bubble_data (\<lambda>s. None) sample_world sample_registry ! i)"
    by (simp add: sample_registry_eq)
  then have "error (gather_bubble_data (\<lambda>s. None) sample_world sample_registry ! 0) = None"
    using b0 by simp
  moreover from t have "\<forall>i<3.
      landslide_score (gather_bubble_data (\<lambda>s. None) sample_world sample_registry ! i) < 15 \<longrightarrow>
      landslide_score (gather_bubble_data (\<lambda>s. None) sample_world sample_registry ! i) = 0
      \<and> error (gather_bubble_data (\<lambda>s. None) sample_world sample_registry ! i) \<noteq> None"
    by (simp add: sample_registry_eq)
  then have "landslide_score (gather_bubble_data (\<lambda>s. None) sample_world sample_registry ! 1) = 0"
    using g1 by (simp add: placeholder_fields)
  ultimately show ?thesis using s b0 b1 unfolding g0 g1 by (simp add: placeholder_fields)
qed

section \<open>Properties of the river probe\<close>

subsection \<open>The value read from the feed\<close>

lemma py_get_truthy:
  "py_get j k = Inr x \<Longrightarrow> truthy x \<Longrightarrow> getitem_key j k = Inr x"
  by (cases j) (auto split: option.splits)

lemma getitem_key_py_get: "getitem_key j k = Inr y \<Longrightarrow> py_get j k = Inr y"
  by (cases j) (auto split: option.splits)

lemma feed_value_Some_iff:
  "feed_value flt get = Inr (Some v) \<longleftrightarrow>
     (\<exists>resp j feeds rec f1.
        get TEESTA_THINGSPEAK = Inr resp \<and> status_code resp = 200 \<and> json_body resp = Inr j
        \<and> py_get j ''feeds'' = Inr feeds \<and> truthy feeds
        \<and> getitem_idx feeds 0 = Inr rec
        \<and> py_get rec ''field1'' = Inr f1 \<and> truthy f1
        \<and> py_float flt f1 = Inr v)"
  (is "?L \<longleftrightarrow> ?R")
proof
  assume ?L
  then show ?R
    unfolding feed_value_def
    by (elim py_bindE) (auto split: if_splits elim!: py_bindE dest!: getitem_key_py_get)
next
  assume ?R
  then obtain resp j feeds rec f1
    where r: "get TEESTA_THINGSPEAK = Inr resp" "status_code resp = 200" "json_body resp = Inr j"
      and f: "py_get j ''feeds'' = Inr feeds" "truthy feeds" "getitem_idx feeds 0 = Inr rec"
      and v: "py_get rec ''field1'' = Inr f1" "truthy f1" "py_float flt f1 = Inr v"
    by blast
  from f have "getitem_key j ''feeds'' = Inr feeds" by (simp add: py_get_truthy)
  moreover from v have "getitem_key rec ''field1'' = Inr f1" by (simp add: py_get_truthy)
  ultimately show ?L
    unfolding feed_value_def using r f v by simp
qed

lemma feed_value_from_feed:
  assumes "get TEESTA_THINGSPEAK = Inr resp" "status_code resp = 200" "json_body resp = Inr j"
    "py_get j ''feeds'' = Inr feeds" "truthy feeds" "getitem_idx feeds 0 = Inr rec"
    "py_get rec ''field1'' = Inr fld" "truthy fld" "py_float flt fld = Inr w"
  shows "feed_value flt get = Inr (Some w)"
  unfolding feed_value_Some_iff using assms by (intro exI conjI)

lemma feed_value_depends_on_feed:
  "get' TEESTA_THINGSPEAK = get TEESTA_THINGSPEAK \<Longrightarrow> feed_value flt get' = feed_value flt get"
  by (simp add: feed_value_def)

subsection \<open>The fallback chain\<close>

lemma fetch_primary:
  "feed_value flt get = Inr (Some v) \<Longrightarrow>
   fetch_teesta_level flt get =
     ((Some v, Some ''cm (ThingSpeak)'', depth_status v), [TEESTA_THINGSPEAK])"
  by (simp add: fetch_teesta_level_def)

lemma fetch_secondary:
  assumes "\<forall>v. feed_value flt get \<noteq> Inr (Some v)"
  shows "fetch_teesta_level flt get =
     (if (\<exists>r. get CWC_FFS = Inr r \<and> contains (lower (text_body r)) ''teesta'')
      then ((None, Some ''CWC FFS mention'', ''SEE_CWC''), [TEESTA_THINGSPEAK, CWC_FFS])
      else ((None, None, ''NO_PUBLIC_RIVER_DATA''), [TEESTA_THINGSPEAK, CWC_FFS]))"
proof (cases "feed_value flt get")
  case (Inl e)
  then show ?thesis
    by (cases "get CWC_FFS") (simp_all add: fetch_teesta_level_def)
next
  case (Inr x)
  with assms have "x = None" by (cases x) simp_all
  with Inr show ?thesis
    by (cases "get CWC_FFS") (simp_all add: fetch_teesta_level_def)
qed

lemma fetch_independent_of_page:
  assumes p: "feed_value flt get = Inr (Some v)"
    and same: "get' TEESTA_THINGSPEAK = get TEESTA_THINGSPEAK"
  shows "fetch_teesta_level flt get' = fetch_teesta_level flt get"
proof -
  from same have "feed_value flt get' = feed_value flt get"
    by (rule feed_value_depends_on_feed)
  with p have "feed_value flt get' = Inr (Some v)" by simp
  then have "fetch_teesta_level flt get' =
     ((Some v, Some ''cm (ThingSpeak)'', depth_status v), [TEESTA_THINGSPEAK])"
    by (rule fetch_primary)
  also have "\<dots> = fetch_teesta_level flt get"
    by (rule fetch_primary [OF p, symmetric])
  finally show ?thesis .
qed

lemma fetch_page_mentions:
  assumes "\<forall>x. feed_value flt get \<noteq> Inr (Some x)"
    and "get CWC_FFS = Inr page" and "contains (lower (text_body page)) ''teesta''"
  shows "fetch_teesta_level flt get =
        ((None, Some ''CWC FFS mention'', ''SEE_CWC''), [TEESTA_THINGSPEAK, CWC_FFS])"
proof -
  from assms(2,3)
  have "\<exists>r. get CWC_FFS = Inr r \<and> contains (lower (text_body r)) ''teesta''"
    by (intro exI conjI)
  then show ?thesis by (simp only: fetch_secondary [OF assms(1)] if_True)
qed

lemma fetch_no_data:
  assumes "\<forall>x. feed_value flt get \<noteq> Inr (Some x)"
    and "\<not> (\<exists>r. get CWC_FFS = Inr r \<and> contains (lower (text_body r)) ''teesta'')"
  shows "fetch_teesta_level flt get =
        ((None, None, ''NO_PUBLIC_RIVER_DATA''), [TEESTA_THINGSPEAK, CWC_FFS])"
  using assms(2) by (simp only: fetch_secondary [OF assms(1)] if_False)

lemma fetch_status_known:
  "snd (snd (fst (fetch_teesta_level flt get))) \<in>
     {''FLOOD WARNING'', ''HIGH'', ''LOW'', ''NORMAL'', ''SEE_CWC'', ''NO_PUBLIC_RIVER_DATA''}"
proof (cases "\<exists>v. feed_value flt get = Inr (Some v)")
  case True
  then obtain v where "feed_value flt get = Inr (Some v)" by blast
  then have "snd (snd (fst (fetch_teesta_level flt get))) = depth_status v"
    by (simp only: fetch_primary fst_conv snd_conv)
  then show ?thesis by (simp add: depth_status_def)
next
  case False
  then have "\<forall>x. feed_value flt get \<noteq> Inr (Some x)" by blast
  from fetch_secondary [OF this]
  have "snd (snd (fst (fetch_teesta_level flt get))) = ''SEE_CWC''
        \<or> snd (snd (fst (fetch_teesta_level flt get))) = ''NO_PUBLIC_RIVER_DATA''"
    by (cases "\<exists>r. get CWC_FFS = Inr r \<and> contains (lower (text_body r)) ''teesta''")
      simp_all
  then show ?thesis by blast
qed

subsection \<open>Running the probe on the sample sources\<close>

lemma urls_differ: "TEESTA_THINGSPEAK \<noteq> CWC_FFS"
  by (simp add: TEESTA_THINGSPEAK_def CWC_FFS_def)

lemma page_names_river:
  "contains (lower ''Flood forecast: river TEESTA at Domohani'') ''teesta''"
  by code_simp

lemma feed_up_value: "feed_value sample_str_float feed_up = Inr (Some (625 / 2))"
  by (simp add: feed_value_def feed_up_def sample_feed_def seq_index_def sample_str_float_def)

lemma page_only_value: "feed_value flt page_only = Inl RequestException"
  by (simp add: feed_value_def page_only_def urls_differ)

lemma all_down_value: "feed_value flt all_down = Inl RequestException"
  by (simp add: feed_value_def all_down_def)

subsection \<open>The reading returned\<close>

text \<open>
  The chain for every state of the two sources. \<^verbatim>\<open>val\<close> is assigned when the request
  succeeds with status 200, the body parses, \<^verbatim>\<open>feeds\<close> is a non-empty list whose first
  record has a \<^verbatim>\<open>field1\<close> that is true in a condition, and \<^verbatim>\<open>float\<close> converts
  it (last conjunct; \<open>feed_value_Some_iff\<close> is the equivalence). Then the probe returns
  that value with the status of its depth band, only the feed has been requested, and the
  result is the same whatever the other source would answer. When the feed step raises or
  assigns no value and the advisory page contains the river's name in any letter case, the
  reading is \<^verbatim>\<open>SEE_CWC\<close> with no value; in every other case, an exception of the second
  request included, it is \<^verbatim>\<open>NO_PUBLIC_RIVER_DATA\<close> with no value. The probe is a total
  function: it returns one reading, with one of six statuses.
\<close>

lemma fallback_chain:
  "(feed_value flt get1 = Inr (Some v) \<longrightarrow>
      fetch_teesta_level flt get1 =
        ((Some v, Some ''cm (ThingSpeak)'', depth_status v), [TEESTA_THINGSPEAK])
      \<and> (\<forall>get'. get' TEESTA_THINGSPEAK = get1 TEESTA_THINGSPEAK \<longrightarrow>
             fetch_teesta_level flt get' = fetch_teesta_level flt get1))
   \<and> (400 < a \<longrightarrow> depth_status a = ''FLOOD WARNING'')
   \<and> (300 < b \<and> b \<le> 400 \<longrightarrow> depth_status b = ''HIGH'')
   \<and> (c < 100 \<longrightarrow> depth_status c = ''LOW'')
   \<and> (100 \<le> d \<and> d \<le> 300 \<longrightarrow> depth_status d = ''NORMAL'')
   \<and> ((\<forall>x. feed_value flt get2 \<noteq> Inr (Some x)) \<and> get2 CWC_FFS = Inr page
        \<and> contains (lower (text_body page)) ''teesta'' \<longrightarrow>
      fetch_teesta_level flt get2 =
        ((None, Some ''CWC FFS mention'', ''SEE_CWC''), [TEESTA_THINGSPEAK, CWC_FFS]))
   \<and> ((\<forall>x. feed_value flt get3 \<noteq> Inr (Some x))
        \<and> \<not> (\<exists>r. get3 CWC_FFS = Inr r \<and> contains (lower (text_body r)) ''teesta'') \<longrightarrow>
      fetch_teesta_level flt get3 =
        ((None, None, ''NO_PUBLIC_RIVER_DATA''), [TEESTA_THINGSPEAK, CWC_FFS]))
   \<and> snd (snd (fst (fetch_teesta_level flt get4))) \<in>
        {''FLOOD WARNING'', ''HIGH'', ''LOW'', ''NORMAL'', ''SEE_CWC'', ''NO_PUBLIC_RIVER_DATA''}
   \<and> (get5 TEESTA_THINGSPEAK = Inr resp \<and> status_code resp = 200 \<and> json_body resp = Inr j
        \<and> py_get j ''feeds'' = Inr feeds \<and> truthy feeds \<and> getitem_idx feeds 0 = Inr rec
        \<and> py_get rec ''field1'' = Inr fld \<and> truthy fld \<and> py_float flt fld = Inr w \<longrightarrow>
      feed_value flt get5 = Inr (Some w))"
proof (intro conjI impI allI)
  assume p: "feed_value flt get1 = Inr (Some v)"
  then show "fetch_teesta_level flt get1 =
        ((Some v, Some ''cm (ThingSpeak)'', depth_status v), [TEESTA_THINGSPEAK])"
    by (rule fetch_primary)
  fix get' assume "get' TEESTA_THINGSPEAK = get1 TEESTA_THINGSPEAK"
  with p show "fetch_teesta_level flt get' = fetch_teesta_level flt get1"
    by (rule fetch_independent_of_page)
next
  assume "400 < a" then show "depth_status a = ''FLOOD WARNING''"
    by (simp add: depth_status_def)
next
  assume "300 < b \<and> b \<le> 400" then show "depth_status b = ''HIGH''"
    by (simp add: depth_status_def)
next
  assume "c < 100" then show "depth_status c = ''LOW''"
    by (simp add: depth_status_def)
next
  assume "100 \<le> d \<and> d \<le> 300" then show "depth_status d = ''NORMAL''"
    by (simp add: depth_status_def)
next
  assume "(\<forall>x. feed_value flt get2 \<noteq> Inr (Some x)) \<and> get2 CWC_FFS = Inr page
        \<and> contains (lower (text_body page)) ''teesta''"
  then show "fetch_teesta_level flt get2 =
        ((None, Some ''CWC FFS mention'', ''SEE_CWC''), [TEESTA_THINGSPEAK, CWC_FFS])"
    by (elim conjE) (rule fetch_page_mentions)
next
  assume "(\<forall>x. feed_value flt get3 \<noteq> Inr (Some x))
        \<and> \<not> (\<exists>r. get3 CWC_FFS = Inr r \<and> contains (lower (text_body r)) ''teesta'')"
  then show "fetch_teesta_level flt get3 =
        ((None, None, ''NO_PUBLIC_RIVER_DATA''), [TEESTA_THINGSPEAK, CWC_FFS])"
    by (elim conjE) (rule fetch_no_data)
next
  show "snd (snd (fst (fetch_teesta_level flt get4))) \<in>
        {''FLOOD WARNING'', ''HIGH'', ''LOW'', ''NORMAL'', ''SEE_CWC'', ''NO_PUBLIC_RIVER_DATA''}"
    by (rule fetch_status_known)
next
  assume "get5 TEESTA_THINGSPEAK = Inr resp \<and> status_code resp = 200 \<and> json_body resp = Inr j
        \<and> py_get j ''feeds'' = Inr feeds \<and> truthy feeds \<and> getitem_idx feeds 0 = Inr rec
        \<and> py_get rec ''field1'' = Inr fld \<and> truthy fld \<and> py_float flt fld = Inr w"
  then show "feed_value flt get5 = Inr (Some w)"
    by (elim conjE) (rule feed_value_from_feed)
qed

lemma fallback_chain_samples:
  "fetch_teesta_level sample_str_float feed_up =
     ((Some (625 / 2), Some ''cm (ThingSpeak)'', ''HIGH''), [TEESTA_THINGSPEAK])
   \<and> fetch_teesta_level sample_str_float page_only =
     ((None, Some ''CWC FFS mention'', ''SEE_CWC''), [TEESTA_THINGSPEAK, CWC_FFS])
   \<and> fetch_teesta_level sample_str_float all_down =
     ((None, None, ''NO_PUBLIC_RIVER_DATA''), [TEESTA_THINGSPEAK, CWC_FFS])
   \<and> depth_status 401 = ''FLOOD WARNING'' \<and> depth_status 400 = ''HIGH''
   \<and> depth_status 99 = ''LOW'' \<and> depth_status 100 = ''NORMAL''"
proof -
  let ?page = "\<lparr>status_code = 200, json_body = Inl ValueError,
                text_body = ''Flood forecast: river TEESTA at Domohani''\<rparr>"
  let ?resp = "\<lparr>status_code = 200, json_body = Inr sample_feed, text_body = []\<rparr>"
  let ?rec = "JObj [(''created_at'', JStr ''2025-06-01T03:00:00Z''), (''entry_id'', JNum 7),
                    (''field1'', JStr ''312.5'')]"
  note t = fallback_chain [where flt = sample_str_float and ?get1.0 = feed_up
      and v = "625 / 2" and a = 401 and b = 400 and c = 99 and d = 100
      and ?get2.0 = page_only and page = ?page and ?get3.0 = all_down
      and ?get4.0 = feed_up and ?get5.0 = feed_up and resp = ?resp and j = sample_feed
      and feeds = "JArr [?rec]" and rec = ?rec and fld = "JStr ''312.5''" and w = "625 / 2"]
  have p2: "\<forall>x. feed_value sample_str_float page_only \<noteq> Inr (Some x)"
    by (simp add: page_only_value)
  have p3: "\<forall>x. feed_value sample_str_float all_down \<noteq> Inr (Some x)"
    by (simp add: all_down_value)
  have g2: "page_only CWC_FFS = Inr ?page" by (simp add: page_only_def)
  have c2: "contains (lower (text_body ?page)) ''teesta''"
    by (simp only: response.simps page_names_river)
  have g3: "\<not> (\<exists>r. all_down CWC_FFS = Inr r \<and> contains (lower (text_body r)) ''teesta'')"
    by (simp add: all_down_def)
  have s: "depth_status (625 / 2) = ''HIGH''" by (simp add: depth_status_def)
  from t feed_up_value p2 p3 g2 c2 g3 s show ?thesis by simp
qed

subsection \<open>Claim about the probe\<close>


end
